theory Spec2Isabelle
  imports Main "HOL-Library.Word" "HOL-Library.Sublist"
begin

unbundle bit_operations_syntax

section \<open>Machine types and kernel constants\<close>

type_synonym u8 = "8 word"
type_synonym u16 = "16 word"
type_synonym u32 = "32 word"
type_synonym u64 = "64 word"

text \<open>
  The C \<open>int\<close> and \<open>long\<close> values of the sources (message types, node ids, wait-station
  ids, return codes, the acked-fault counters) are only compared and incremented far from
  their limits, so they are HOL integers. Values whose wrap-around or bit layout
  matters (ring counters, \<open>page->private\<close>, flag words, histogram buckets) are words.
\<close>

text \<open>Linux errno values and fault codes used by the sources (kernel headers, x86-64).\<close>

definition EAGAIN :: int where "EAGAIN = 11"
definition EINVAL :: int where "EINVAL = 22"
definition VM_FAULT_RETRY :: int where "VM_FAULT_RETRY = 0x400"
definition PAGE_SHIFT :: nat where "PAGE_SHIFT = 12"
definition PAGE_SIZE :: nat where "PAGE_SIZE = 4096"
definition PMD_ORDER :: int where "PMD_ORDER = 9"

section \<open>Messages (swmc\_kmsg.h)\<close>

definition SWMC_KMSG_TYPE_FETCH :: int where "SWMC_KMSG_TYPE_FETCH = 0"
definition SWMC_KMSG_TYPE_FETCH_ACK :: int where "SWMC_KMSG_TYPE_FETCH_ACK = 1"
definition SWMC_KMSG_TYPE_FETCH_NACK :: int where "SWMC_KMSG_TYPE_FETCH_NACK = 2"
definition SWMC_KMSG_TYPE_INVALIDATE :: int where "SWMC_KMSG_TYPE_INVALIDATE = 3"
definition SWMC_KMSG_TYPE_INVALIDATE_ACK :: int where "SWMC_KMSG_TYPE_INVALIDATE_ACK = 4"
definition SWMC_KMSG_TYPE_INVALIDATE_NACK :: int where "SWMC_KMSG_TYPE_INVALIDATE_NACK = 5"
definition SWMC_KMSG_TYPE_ERROR :: int where "SWMC_KMSG_TYPE_ERROR = 6"
definition SWMC_KMSG_TYPE_MAX :: int where "SWMC_KMSG_TYPE_MAX = 7"

lemmas kmsg_type_defs =
  SWMC_KMSG_TYPE_FETCH_def SWMC_KMSG_TYPE_FETCH_ACK_def SWMC_KMSG_TYPE_FETCH_NACK_def
  SWMC_KMSG_TYPE_INVALIDATE_def SWMC_KMSG_TYPE_INVALIDATE_ACK_def
  SWMC_KMSG_TYPE_INVALIDATE_NACK_def SWMC_KMSG_TYPE_ERROR_def SWMC_KMSG_TYPE_MAX_def

record swmc_kmsg_hdr =
  msg_type :: int
  ws_id :: int
  from_nid :: int
  to_nid :: int

record payload_data =
  cxl_hdm_offset :: u64
  page_order :: int
  acked_fault_count :: int

record swmc_kmsg_message =
  header :: swmc_kmsg_hdr
  payload :: payload_data

section \<open>The messaging ring (cxl\_shm.c)\<close>

definition CXL_KMSG_RBUF_SIZE :: nat where "CXL_KMSG_RBUF_SIZE = 65536"

text \<open>
  \<open>struct cxl_kmsg_window\<close>: two 64-bit counters, the enable byte and the slot array.
  The slot array is a function from the slot index; only indices below
  \<open>CXL_KMSG_RBUF_SIZE\<close> are ever used. Cache flushes and fences have no effect on the
  values and are left out.
\<close>

record cxl_kmsg_window =
  head :: u64
  tail :: u64
  int_enabled :: u8
  buffer :: "nat \<Rightarrow> swmc_kmsg_message"

text \<open>\<open>__validate_kmsg\<close>: a message pointer may be NULL (\<open>None\<close>).\<close>

definition validate_kmsg :: "swmc_kmsg_message option \<Rightarrow> int" where
  "validate_kmsg msg =
     (case msg of
        None \<Rightarrow> - EINVAL
      | Some m \<Rightarrow>
          if msg_type (header m) < 0 \<or> msg_type (header m) \<ge> SWMC_KMSG_TYPE_MAX then - EINVAL
          else if ws_id (header m) < 0 \<or> from_nid (header m) < 0 \<or> to_nid (header m) < 0
          then - EINVAL
          else 0)"

definition win_inuse :: "cxl_kmsg_window \<Rightarrow> u64" where
  "win_inuse win = head win - tail win"

text \<open>\<open>win_put\<close> returns the C return code and the window after the call.\<close>

definition win_put :: "cxl_kmsg_window \<Rightarrow> swmc_kmsg_message option \<Rightarrow> int \<times> cxl_kmsg_window" where
  "win_put win msg =
     (let ret = validate_kmsg msg in
      if ret \<noteq> 0 then (ret, win)
      else if win_inuse win \<ge> word_of_nat (CXL_KMSG_RBUF_SIZE - 1) then (- EAGAIN, win)
      else
        (case msg of
           None \<Rightarrow> (ret, win)
         | Some m \<Rightarrow>
             (let ticket = unat (head win) mod CXL_KMSG_RBUF_SIZE in
              (0, win\<lparr>buffer := (buffer win)(ticket := m), head := head win + 1\<rparr>))))"

text \<open>\<open>win_get\<close>: \<open>None\<close> is the return code \<open>-1\<close> (ring empty).\<close>

definition win_get :: "cxl_kmsg_window \<Rightarrow> (swmc_kmsg_message \<times> cxl_kmsg_window) option" where
  "win_get win =
     (if win_inuse win = 0 then None
      else Some (buffer win (unat (tail win) mod CXL_KMSG_RBUF_SIZE), win\<lparr>tail := tail win + 1\<rparr>))"

definition zero_message :: swmc_kmsg_message where
  "zero_message = \<lparr>header = \<lparr>msg_type = 0, ws_id = 0, from_nid = 0, to_nid = 0\<rparr>,
                   payload = \<lparr>cxl_hdm_offset = 0, page_order = 0, acked_fault_count = 0\<rparr>\<rparr>"

definition cxl_kmsg_window_init :: "cxl_kmsg_window \<Rightarrow> cxl_kmsg_window" where
  "cxl_kmsg_window_init window =
     window\<lparr>head := 0, tail := 0, int_enabled := 1, buffer := (\<lambda>_. zero_message)\<rparr>"

text \<open>A ring holding \<open>capacity - 1\<close> messages, and a well-formed message, for evaluation.\<close>

definition full_window :: cxl_kmsg_window where
  "full_window =
     (cxl_kmsg_window_init \<lparr>head = 0, tail = 0, int_enabled = 0, buffer = (\<lambda>_. zero_message)\<rparr>)
       \<lparr>head := 65535\<rparr>"

definition sample_ack :: swmc_kmsg_message where
  "sample_ack = \<lparr>header = \<lparr>msg_type = 1, ws_id = 7, from_nid = 0, to_nid = 1\<rparr>,
                 payload = \<lparr>cxl_hdm_offset = 0x10000, page_order = 0, acked_fault_count = 5\<rparr>\<rparr>"

section \<open>The access histogram of the replication daemon\<close>

text \<open>
  \<open>unsigned long hist[32]\<close> is a list of 32 words. C does not check array bounds; the
  model makes an access outside \<open>0..31\<close> an error value instead of touching whatever
  memory lies next to the array.
\<close>

datatype sample_error =
    HistIndexOutOfBounds int
  | ShiftCountTooLarge nat

text \<open>\<open>fls64\<close> (kernel bitops): the 1-based position of the most significant set bit, 0 for 0.\<close>

fun fls_nat :: "nat \<Rightarrow> nat" where
  "fls_nat n = (if n = 0 then 0 else Suc (fls_nat (n div 2)))"

declare fls_nat.simps [simp del]

definition fls64 :: "u64 \<Rightarrow> int" where
  "fls64 x = int (fls_nat (unat x))"

definition hist_dec :: "int \<Rightarrow> u64 list \<Rightarrow> sample_error + u64 list" where
  "hist_dec i h =
     (if 0 \<le> i \<and> i < 32 then Inr (h[nat i := h ! nat i - 1]) else Inl (HistIndexOutOfBounds i))"

definition hist_inc :: "int \<Rightarrow> u64 list \<Rightarrow> sample_error + u64 list" where
  "hist_inc i h =
     (if 0 \<le> i \<and> i < 32 then Inr (h[nat i := h ! nat i + 1]) else Inl (HistIndexOutOfBounds i))"

text \<open>The accessors of \<open>page->private\<close> in access mode.\<close>

definition SWMC_TAG_MASK :: u64 where "SWMC_TAG_MASK = 0x3"
definition SWMC_TAG_PTR :: u64 where "SWMC_TAG_PTR = 0x0"
definition SWMC_TAG_ACCESS :: u64 where "SWMC_TAG_ACCESS = 0x1"
definition SWMC_TAG_REPLICA_SELF :: u64 where "SWMC_TAG_REPLICA_SELF = 0x2"
definition SWMC_TAG_RSVD :: u64 where "SWMC_TAG_RSVD = 0x3"

definition swmc_access_count :: "u64 \<Rightarrow> u32" where
  "swmc_access_count v = ucast (drop_bit 32 v)"

definition swmc_last_accessed_age :: "u64 \<Rightarrow> u16" where
  "swmc_last_accessed_age v = ucast (drop_bit 16 (v AND 0xffff0000))"

text \<open>
  The part of \<open>handle_sampled_address\<close> that works on the private word and the
  histogram (source lines "v = READ\_ONCE(page->private)" to the histogram update).
  It returns the new private word, the histogram and the new MSB index. A right shift
  of the 32-bit count by 32 or more is undefined in C and reported as such.
\<close>

definition update_access_count ::
  "u64 \<Rightarrow> u64 \<Rightarrow> u64 list \<Rightarrow> sample_error + (u64 \<times> u64 list \<times> int)" where
  "update_access_count monitoring_age v hist =
     (let access_count0 = swmc_access_count v;
          last_accessed_age = swmc_last_accessed_age v;
          age_diff = (ucast (monitoring_age - ucast last_accessed_age) :: u16)
      in
      if monitoring_age > ucast last_accessed_age \<and> unat age_diff \<ge> 32
      then Inl (ShiftCountTooLarge (unat age_diff))
      else
        (let access_count =
               (if monitoring_age > ucast last_accessed_age
                then drop_bit (unat age_diff) access_count0 else access_count0);
             new_access_count = (ucast access_count :: u64) + 1;
             last_accessed_age' = (ucast monitoring_age :: u16);
             private' = push_bit 32 new_access_count OR push_bit 16 (ucast last_accessed_age')
                          OR (v AND SWMC_TAG_MASK);
             new_msb_index = fls64 new_access_count - 1;
             old_msb_index = fls64 (ucast access_count) - 1
         in
         if new_msb_index \<noteq> old_msb_index then
           (case hist_dec old_msb_index hist of
              Inl e \<Rightarrow> Inl e
            | Inr h1 \<Rightarrow>
                (case hist_inc new_msb_index h1 of
                   Inl e \<Rightarrow> Inl e
                 | Inr h2 \<Rightarrow> Inr (private', h2, new_msb_index)))
         else Inr (private', hist, new_msb_index)))"

text \<open>\<open>calculate_hotness_threshold\<close>: the two loops over the 32 buckets.\<close>

fun hotness_scan :: "u64 list \<Rightarrow> u64 \<Rightarrow> u64 \<Rightarrow> nat \<Rightarrow> u64" where
  "hotness_scan hist target_samples cumulative_samples 0 = 0"
| "hotness_scan hist target_samples cumulative_samples (Suc i) =
     (if cumulative_samples + hist ! Suc i \<ge> target_samples then word_of_nat (Suc i)
      else hotness_scan hist target_samples (cumulative_samples + hist ! Suc i) i)"

definition calculate_hotness_threshold :: "u64 list \<Rightarrow> u64 \<Rightarrow> u64 \<Rightarrow> u64" where
  "calculate_hotness_threshold hist hotness_threshold percentile =
     (let total_samples = fold (\<lambda>i s. s + hist ! i) [0..<32] 0 in
      if total_samples = 0 then hotness_threshold
      else hotness_scan hist ((total_samples * percentile) div 100) 0 31)"

text \<open>
  Step 2-6 of the replication interval in \<open>kreplicationd\<close>:
  \<^verbatim>\<open>for (int j = 1; j < 32; j++) { hist[j-1] += hist[j]; hist[j] = 0; }\<close>
\<close>

definition cool_step :: "nat \<Rightarrow> u64 list \<Rightarrow> u64 list" where
  "cool_step j h = (h[j - 1 := h ! (j - 1) + h ! j])[j := 0]"

definition cool_down_histogram :: "u64 list \<Rightarrow> u64 list" where
  "cool_down_histogram h = fold cool_step [1..<32] h"

text \<open>
  The end of a replication-interval tick (steps 2-4 to 2-6): the monitoring age is
  incremented, the threshold recomputed, the histogram cooled. Steps 2-1 to 2-3 do not
  touch the histogram.
\<close>

record daemon_state =
  hist :: "u64 list"
  hotness_threshold :: u64
  monitoring_age :: u64
  hot_page_percentile :: u64

definition replication_tick_end :: "daemon_state \<Rightarrow> daemon_state" where
  "replication_tick_end d =
     (let d1 = d\<lparr>monitoring_age := monitoring_age d + 1\<rparr>;
          d2 = d1\<lparr>hotness_threshold :=
                    calculate_hotness_threshold (hist d1) (hotness_threshold d1) (hot_page_percentile d1)\<rparr>
      in d2\<lparr>hist := cool_down_histogram (hist d2)\<rparr>)"

section \<open>Pages, replicas and the LRU lists\<close>

text \<open>
  A \<open>struct page\<close> is addressed by its pointer (\<open>0\<close> is NULL). The model keeps the fields
  the sources use. \<open>PageShared\<close>, \<open>PageModified\<close>, \<open>PageCoherence\<close> and their Set/Clear
  forms are page-flag macros of the patched kernel headers, which are not part of the
  sources: each is one bit of the page. \<open>contents\<close> is the page's data, by byte offset.
\<close>

record page =
  page_private :: u64
  memcg_data :: u64
  page_mapping :: u64
  page_index :: u64
  PG_shared :: bool
  PG_modified :: bool
  PG_coherence :: bool
  contents :: "nat \<Rightarrow> u8"

text \<open>
  The kernel's \<open>pfn_to_page\<close> and \<open>page_to_pfn\<close> (sparse vmemmap on x86-64: an array of
  64-byte page structs at a fixed virtual base).
\<close>

definition VMEMMAP_START :: u64 where "VMEMMAP_START = 0xffffea0000000000"

definition pfn_to_page :: "u64 \<Rightarrow> u64" where
  "pfn_to_page pfn = VMEMMAP_START + push_bit 6 pfn"

definition page_to_pfn :: "u64 \<Rightarrow> u64" where
  "page_to_pfn pg = drop_bit 6 (pg - VMEMMAP_START)"

text \<open>
  What the code does to the outside world is recorded in order: messages handed to the
  transport, page-table operations of the mapping layer, pages given back to the
  allocator, completions signalled.
\<close>

datatype event =
    Unicast int int int payload_data
  | Broadcast int int payload_data
  | UnmapMappingPages u64 u64 nat
  | MkcleanRange u64 u64 u64
  | FreePages u64 nat
  | Complete u64
  | Msleep nat

datatype fault_error = NullPointerDereference | UseAfterFree | NeverReturns

record fault_handle =
  original_pfn_val :: u64
  original_page :: u64
  fh_flags :: u64
  fh_action :: u64
  complete :: bool

record kstate =
  pages :: "u64 \<Rightarrow> page"
  replica_active_lru :: "u64 list"
  replica_inactive_lru :: "u64 list"
  page_replica_allocated_pages :: int
  alloc_answers :: "u64 list"
  faults :: "nat \<Rightarrow> fault_handle list"
  local_acked_fault_count :: int
  nr_in_flight_transactions :: int
  cxl_hdm_base :: u64
  page_coherence_enabled :: int
  page_coherence_fault_count :: int
  page_coherence_fault_read_count :: int
  page_coherence_fault_write_count :: int
  daemon :: daemon_state
  replication_candidate :: "u64 list"
  trace :: "event list"

definition upd_page :: "u64 \<Rightarrow> (page \<Rightarrow> page) \<Rightarrow> kstate \<Rightarrow> kstate" where
  "upd_page p f s = s\<lparr>pages := (pages s)(p := f (pages s p))\<rparr>"

definition emit :: "event \<Rightarrow> kstate \<Rightarrow> kstate" where
  "emit e s = s\<lparr>trace := trace s @ [e]\<rparr>"

definition swmc_decode_replica_ptr :: "u64 \<Rightarrow> u64" where
  "swmc_decode_replica_ptr v = v AND NOT SWMC_TAG_MASK"

text \<open>\<open>get_replica_opt\<close> on the page struct read from the original; \<open>0\<close> is NULL.\<close>

definition get_replica_opt :: "page \<Rightarrow> u64" where
  "get_replica_opt orig =
     (let v = page_private orig in
      if v = 0 then 0
      else if v AND SWMC_TAG_MASK = SWMC_TAG_PTR then swmc_decode_replica_ptr v
      else if v AND SWMC_TAG_MASK = SWMC_TAG_ACCESS then 0
      else if v AND SWMC_TAG_MASK = SWMC_TAG_REPLICA_SELF then 0
      else 0)"

definition get_original_opt :: "page \<Rightarrow> u64" where
  "get_original_opt page_replica = memcg_data page_replica"

text \<open>
  \<open>copy_data_page(src, dst, order)\<close>: \<open>memcpy\<close> of \<open>PAGE_SIZE << order\<close> bytes. The
  kernel mappings (\<open>kmap\<close>, \<open>kmap_local_page\<close>) always succeed on a 64-bit kernel.
\<close>

definition copy_data_page :: "u64 \<Rightarrow> u64 \<Rightarrow> nat \<Rightarrow> kstate \<Rightarrow> int \<times> kstate" where
  "copy_data_page src_page dst_page order s =
     (if src_page = 0 \<or> dst_page = 0 then (- EINVAL, s)
      else
        (let bytes = PAGE_SIZE * 2 ^ order;
             src = contents (pages s src_page)
         in (0, upd_page dst_page
                  (\<lambda>d. d\<lparr>contents := (\<lambda>i. if i < bytes then src i else contents d i)\<rparr>) s)))"


definition track_page_free :: "nat \<Rightarrow> kstate \<Rightarrow> kstate" where
  "track_page_free order s =
     s\<lparr>page_replica_allocated_pages := page_replica_allocated_pages s - 2 ^ order\<rparr>"

text \<open>
  The intrusive lists hold a page at most once. \<open>list_add\<close> puts a node at the head;
  \<open>list_del_init\<close> unlinks it from the list it is on.
\<close>

definition replica_lru_add_active :: "u64 \<Rightarrow> kstate \<Rightarrow> kstate" where
  "replica_lru_add_active page_replica s =
     s\<lparr>replica_active_lru := page_replica # replica_active_lru s\<rparr>"

definition replica_lru_del :: "u64 \<Rightarrow> kstate \<Rightarrow> kstate" where
  "replica_lru_del page_replica s =
     s\<lparr>replica_active_lru := removeAll page_replica (replica_active_lru s),
       replica_inactive_lru := removeAll page_replica (replica_inactive_lru s)\<rparr>"

definition insert_replica_lru :: "u64 \<Rightarrow> kstate \<Rightarrow> kstate" where
  "insert_replica_lru page_replica s = replica_lru_add_active page_replica s"

definition remove_replica_lru :: "u64 \<Rightarrow> kstate \<Rightarrow> kstate" where
  "remove_replica_lru page_replica s = replica_lru_del page_replica s"





definition free_replica_pages :: "u64 \<Rightarrow> nat \<Rightarrow> kstate \<Rightarrow> kstate" where
  "free_replica_pages page_replica order s = track_page_free order (emit (FreePages page_replica order) s)"


text \<open>
  \<open>writeback_page_replica\<close>. \<open>get_original_opt\<close> reads through the replica pointer, so
  a NULL replica is a NULL dereference.
\<close>

definition writeback_page_replica :: "u64 \<Rightarrow> kstate \<Rightarrow> fault_error + (int \<times> kstate)" where
  "writeback_page_replica page_replica s =
     (if page_replica = 0 then Inl NullPointerDereference
      else
        (let page_original = get_original_opt (pages s page_replica) in
         if page_original = 0 then Inr (- EINVAL, s)
         else Inr (0, snd (copy_data_page page_replica page_original 0 s))))"


text \<open>\<open>fetch_page_replica\<close>: the copy goes from the replica to the original, as written.\<close>

definition fetch_page_replica :: "u64 \<Rightarrow> kstate \<Rightarrow> int \<times> kstate" where
  "fetch_page_replica original s =
     (let page_replica = get_replica_opt (pages s original) in
      if page_replica = 0 then (- 1, s)
      else copy_data_page page_replica original 0 s)"

section \<open>The fault engine (page\_coherence.c)\<close>

definition FAULT_HASH_SIZE :: nat where "FAULT_HASH_SIZE = 31"
definition WAIT_STATION_THRESHOLD :: int where "WAIT_STATION_THRESHOLD = 52428"

definition FH_STATE_RETRY :: u64 where "FH_STATE_RETRY = 0x20"
definition FH_STATE_REMOTE :: u64 where "FH_STATE_REMOTE = 0x10"
definition FH_STATE_REPLICATED :: u64 where "FH_STATE_REPLICATED = 0x08"
definition FH_STATE_NEEDWRITE :: u64 where "FH_STATE_NEEDWRITE = 0x04"
definition FH_STATE_MODIFIED :: u64 where "FH_STATE_MODIFIED = 0x02"
definition FH_STATE_SHARED :: u64 where "FH_STATE_SHARED = 0x01"

lemmas fh_state_defs =
  FH_STATE_RETRY_def FH_STATE_REMOTE_def FH_STATE_REPLICATED_def FH_STATE_NEEDWRITE_def
  FH_STATE_MODIFIED_def FH_STATE_SHARED_def

text \<open>The macros \<open>FH_SET_FLAG\<close>, \<open>FH_CLEAR_FLAG\<close> and \<open>FH_IS_FLAG\<close>, by flag.\<close>

definition set_flag :: "u64 \<Rightarrow> fault_handle \<Rightarrow> fault_handle" where
  "set_flag f fh = fh\<lparr>fh_flags := fh_flags fh OR f\<rparr>"

definition clear_flag :: "u64 \<Rightarrow> fault_handle \<Rightarrow> fault_handle" where
  "clear_flag f fh = fh\<lparr>fh_flags := fh_flags fh AND NOT f\<rparr>"

definition is_flag :: "u64 \<Rightarrow> fault_handle \<Rightarrow> bool" where
  "is_flag f fh = (fh_flags fh AND f \<noteq> 0)"

abbreviation "is_RETRY \<equiv> is_flag FH_STATE_RETRY"
abbreviation "is_REMOTE \<equiv> is_flag FH_STATE_REMOTE"
abbreviation "is_REPLICATED \<equiv> is_flag FH_STATE_REPLICATED"
abbreviation "is_NEEDWRITE \<equiv> is_flag FH_STATE_NEEDWRITE"
abbreviation "is_MODIFIED \<equiv> is_flag FH_STATE_MODIFIED"
abbreviation "is_SHARED \<equiv> is_flag FH_STATE_SHARED"

definition FH_CLEAR_FLAG_ALL :: "fault_handle \<Rightarrow> fault_handle" where
  "FH_CLEAR_FLAG_ALL fh =
     clear_flag FH_STATE_SHARED (clear_flag FH_STATE_MODIFIED (clear_flag FH_STATE_NEEDWRITE
       (clear_flag FH_STATE_REPLICATED (clear_flag FH_STATE_REMOTE (clear_flag FH_STATE_RETRY fh)))))"

definition fault_hash_key :: "u64 \<Rightarrow> nat" where
  "fault_hash_key pfn = unat pfn mod FAULT_HASH_SIZE"

text \<open>
  A bucket is the chain of its handles, head first. A handle pointer obtained from the
  search loop (or from \<open>hlist_add_head\<close>) denotes the first handle of the chain with that
  pfn; writes through the pointer and \<open>hlist_del_init\<close> act on that handle.
\<close>

fun find_fh :: "u64 \<Rightarrow> fault_handle list \<Rightarrow> fault_handle option" where
  "find_fh pfn [] = None"
| "find_fh pfn (fh # rest) = (if original_pfn_val fh = pfn then Some fh else find_fh pfn rest)"

fun upd_fh :: "u64 \<Rightarrow> (fault_handle \<Rightarrow> fault_handle) \<Rightarrow> fault_handle list \<Rightarrow> fault_handle list" where
  "upd_fh pfn f [] = []"
| "upd_fh pfn f (fh # rest) = (if original_pfn_val fh = pfn then f fh # rest else fh # upd_fh pfn f rest)"

fun del_fh :: "u64 \<Rightarrow> fault_handle list \<Rightarrow> fault_handle list" where
  "del_fh pfn [] = []"
| "del_fh pfn (fh # rest) = (if original_pfn_val fh = pfn then rest else fh # del_fh pfn rest)"

definition lookup_fault :: "u64 \<Rightarrow> kstate \<Rightarrow> fault_handle option" where
  "lookup_fault pfn s = find_fh pfn (faults s (fault_hash_key pfn))"

definition modify_fault :: "u64 \<Rightarrow> (fault_handle \<Rightarrow> fault_handle) \<Rightarrow> kstate \<Rightarrow> kstate" where
  "modify_fault pfn f s =
     s\<lparr>faults := (faults s)(fault_hash_key pfn := upd_fh pfn f (faults s (fault_hash_key pfn)))\<rparr>"

definition hlist_del_init :: "u64 \<Rightarrow> kstate \<Rightarrow> kstate" where
  "hlist_del_init pfn s =
     s\<lparr>faults := (faults s)(fault_hash_key pfn := del_fh pfn (faults s (fault_hash_key pfn)))\<rparr>"

text \<open>
  What the engine gets from the rest of the kernel and from its peers during one call:
  whether the handle cache can allocate, the transport's return codes, the wait
  station's id and outcome, what the other threads did while this one slept on a
  completion (\<open>None\<close>: it is never woken), and the indeterminate value of a local
  variable read before any assignment.
\<close>

datatype wait_result = WaitDone | WaitNacked | WaitError int | WaitForever

record env =
  kmem_cache_alloc_ok :: bool
  unicast_ret :: int
  get_wait_station_answers :: "bool list"
  wait_station_id :: int
  broadcast_answers :: "int list"
  wait_at_station_answer :: wait_result
  wakeup :: "kstate \<Rightarrow> kstate option"
  uninitialized_ret :: int

text \<open>
  \<open>__alloc_fault_handle\<close>. The slab memory is not zeroed; \<open>fh_action\<close> is written by
  \<open>set_fh_action\<close> before the bucket lock is released, so its first value is never read.
\<close>

definition alloc_fault_handle :: "env \<Rightarrow> u64 \<Rightarrow> kstate \<Rightarrow> fault_handle option \<times> kstate" where
  "alloc_fault_handle e pfn s =
     (if \<not> kmem_cache_alloc_ok e then (None, s)
      else
        (let fh = \<lparr>original_pfn_val = pfn, original_page = pfn_to_page pfn, fh_flags = 0,
                    fh_action = 0, complete = False\<rparr>;
             fk = fault_hash_key pfn
         in (Some fh, s\<lparr>faults := (faults s)(fk := fh # faults s fk)\<rparr>)))"

definition has_lower_priority :: "kstate \<Rightarrow> fault_handle \<Rightarrow> bool \<Rightarrow> int \<Rightarrow> int \<Rightarrow> int \<Rightarrow> bool" where
  "has_lower_priority s fh is_write remote_acked_fault_count remote_node_id local_node_id =
     (let local_is_write = is_NEEDWRITE fh;
          local_acked_count = local_acked_fault_count s
      in
      if \<not> is_write \<and> local_is_write then True
      else if is_write \<and> local_is_write then
        (if remote_acked_fault_count < local_acked_count then False
         else if remote_acked_fault_count > local_acked_count then True
         else local_node_id < remote_node_id)
      else False)"

definition check_metadata :: "kstate \<Rightarrow> fault_handle \<Rightarrow> fault_handle" where
  "check_metadata s fh =
     (let pg = pages s (original_page fh);
          fh1 = (if PG_shared pg then set_flag FH_STATE_SHARED fh else clear_flag FH_STATE_SHARED fh);
          fh2 = (if PG_modified pg then set_flag FH_STATE_MODIFIED fh1
                 else clear_flag FH_STATE_MODIFIED fh1)
      in if get_replica_opt pg \<noteq> 0 then set_flag FH_STATE_REPLICATED fh2
         else clear_flag FH_STATE_REPLICATED fh2)"

definition FH_ACTION_INVALID :: u64 where "FH_ACTION_INVALID = 0x00"
definition FH_ACTION_UPDATE_METADATA :: u64 where "FH_ACTION_UPDATE_METADATA = 0x01"
definition FH_ACTION_ISSUE_SYNC_TRANSACTION :: u64 where "FH_ACTION_ISSUE_SYNC_TRANSACTION = 0x02"
definition FH_ACTION_ISSUE_ASYNC_TRANSACTION :: u64 where "FH_ACTION_ISSUE_ASYNC_TRANSACTION = 0x04"
definition FH_ACTION_WAIT_FOR_ASYNC_TRANSACTION :: u64 where
  "FH_ACTION_WAIT_FOR_ASYNC_TRANSACTION = 0x08"
definition FH_ACTION_MAP_VPN_TO_PFN :: u64 where "FH_ACTION_MAP_VPN_TO_PFN = 0x10"
definition FH_ACTION_WRITEBACK :: u64 where "FH_ACTION_WRITEBACK = 0x20"
definition FH_ACTION_INVALIDATE :: u64 where "FH_ACTION_INVALIDATE = 0x40"
definition FH_ACTION_RESPOND :: u64 where "FH_ACTION_RESPOND = 0x80"

lemmas fh_action_defs =
  FH_ACTION_INVALID_def FH_ACTION_UPDATE_METADATA_def FH_ACTION_ISSUE_SYNC_TRANSACTION_def
  FH_ACTION_ISSUE_ASYNC_TRANSACTION_def FH_ACTION_WAIT_FOR_ASYNC_TRANSACTION_def
  FH_ACTION_MAP_VPN_TO_PFN_def FH_ACTION_WRITEBACK_def FH_ACTION_INVALIDATE_def
  FH_ACTION_RESPOND_def

text \<open>The table, in the order of the source: R W M S, local faults first.\<close>

definition fh_action_table :: "u64 list" where
  "fh_action_table =
   [ FH_ACTION_ISSUE_ASYNC_TRANSACTION OR FH_ACTION_UPDATE_METADATA OR FH_ACTION_MAP_VPN_TO_PFN,
     FH_ACTION_MAP_VPN_TO_PFN,
     FH_ACTION_MAP_VPN_TO_PFN,
     FH_ACTION_MAP_VPN_TO_PFN,
     FH_ACTION_ISSUE_SYNC_TRANSACTION OR FH_ACTION_UPDATE_METADATA OR FH_ACTION_MAP_VPN_TO_PFN,
     FH_ACTION_ISSUE_SYNC_TRANSACTION OR FH_ACTION_UPDATE_METADATA,
     FH_ACTION_MAP_VPN_TO_PFN,
     FH_ACTION_WAIT_FOR_ASYNC_TRANSACTION OR FH_ACTION_ISSUE_SYNC_TRANSACTION
       OR FH_ACTION_UPDATE_METADATA OR FH_ACTION_MAP_VPN_TO_PFN,
     FH_ACTION_ISSUE_SYNC_TRANSACTION OR FH_ACTION_UPDATE_METADATA OR FH_ACTION_MAP_VPN_TO_PFN,
     FH_ACTION_MAP_VPN_TO_PFN,
     FH_ACTION_MAP_VPN_TO_PFN,
     FH_ACTION_INVALID,
     FH_ACTION_ISSUE_SYNC_TRANSACTION OR FH_ACTION_UPDATE_METADATA OR FH_ACTION_MAP_VPN_TO_PFN,
     FH_ACTION_ISSUE_SYNC_TRANSACTION OR FH_ACTION_UPDATE_METADATA OR FH_ACTION_MAP_VPN_TO_PFN,
     FH_ACTION_MAP_VPN_TO_PFN,
     FH_ACTION_INVALID,
     FH_ACTION_RESPOND,
     FH_ACTION_RESPOND,
     FH_ACTION_RESPOND OR FH_ACTION_WRITEBACK OR FH_ACTION_UPDATE_METADATA,
     FH_ACTION_RESPOND,
     FH_ACTION_RESPOND,
     FH_ACTION_RESPOND OR FH_ACTION_INVALIDATE OR FH_ACTION_UPDATE_METADATA,
     FH_ACTION_RESPOND OR FH_ACTION_WRITEBACK OR FH_ACTION_INVALIDATE OR FH_ACTION_UPDATE_METADATA,
     FH_ACTION_RESPOND OR FH_ACTION_INVALIDATE OR FH_ACTION_UPDATE_METADATA,
     FH_ACTION_RESPOND,
     FH_ACTION_RESPOND,
     FH_ACTION_RESPOND OR FH_ACTION_WRITEBACK OR FH_ACTION_UPDATE_METADATA,
     FH_ACTION_RESPOND,
     FH_ACTION_RESPOND,
     FH_ACTION_RESPOND OR FH_ACTION_INVALIDATE OR FH_ACTION_UPDATE_METADATA,
     FH_ACTION_RESPOND OR FH_ACTION_INVALIDATE OR FH_ACTION_WRITEBACK OR FH_ACTION_UPDATE_METADATA,
     FH_ACTION_INVALID ]"

definition set_fh_action :: "fault_handle \<Rightarrow> fault_handle" where
  "set_fh_action fh = fh\<lparr>fh_action := fh_action_table ! unat (fh_flags fh AND 0x1F)\<rparr>"

text \<open>The flag update shared by both start functions, after the handle is in the bucket.\<close>

definition init_fh_flags :: "kstate \<Rightarrow> bool \<Rightarrow> bool \<Rightarrow> fault_handle \<Rightarrow> fault_handle" where
  "init_fh_flags s remote is_write fh =
     (let fh1 = FH_CLEAR_FLAG_ALL fh;
          fh2 = (if remote then set_flag FH_STATE_REMOTE fh1 else fh1);
          fh3 = (if is_write then set_flag FH_STATE_NEEDWRITE fh2 else clear_flag FH_STATE_NEEDWRITE fh2)
      in set_fh_action (check_metadata s fh3))"

text \<open>
  \<open>__start_local_fault_handling\<close>. With a handle already in the bucket the caller
  attaches its completion and sleeps; \<open>wakeup\<close> gives the state it finds when woken.
  The result is the handle (\<open>None\<close> is the NULL return).
\<close>

definition start_local_fault_handling ::
  "env \<Rightarrow> u64 \<Rightarrow> bool \<Rightarrow> kstate \<Rightarrow> fault_error + (fault_handle option \<times> kstate)" where
  "start_local_fault_handling e pfn is_write s =
     (case lookup_fault pfn s of
        Some fh0 \<Rightarrow>
          (case wakeup e (modify_fault pfn (\<lambda>fh. fh\<lparr>complete := True\<rparr>) s) of
             None \<Rightarrow> Inl NeverReturns
           | Some s1 \<Rightarrow>
               (case lookup_fault pfn s1 of
                  None \<Rightarrow> Inl UseAfterFree
                | Some fh \<Rightarrow>
                    if is_NEEDWRITE fh then Inr (None, hlist_del_init pfn s1)
                    else
                      (let fh' = init_fh_flags s1 False is_write fh
                       in Inr (Some fh', modify_fault pfn (\<lambda>_. fh') s1))))
      | None \<Rightarrow>
          (case alloc_fault_handle e pfn s of
             (None, s1) \<Rightarrow> Inr (None, s1)
           | (Some fh, s1) \<Rightarrow>
               (let fh' = init_fh_flags s1 False is_write fh
                in Inr (Some fh', modify_fault pfn (\<lambda>_. fh') s1))))"

definition finish_local_fault_handling :: "u64 \<Rightarrow> kstate \<Rightarrow> bool \<times> kstate" where
  "finish_local_fault_handling pfn s =
     (let retry = (case lookup_fault pfn s of None \<Rightarrow> False | Some fh \<Rightarrow> is_RETRY fh)
      in (retry, hlist_del_init pfn s))"

text \<open>\<open>__start_remote_fault_handling\<close>: the handle for an ACK, \<open>None\<close> (NULL) for a NACK.\<close>

definition start_remote_fault_handling ::
  "env \<Rightarrow> u64 \<Rightarrow> bool \<Rightarrow> int \<Rightarrow> int \<Rightarrow> int \<Rightarrow> kstate \<Rightarrow> fault_handle option \<times> kstate" where
  "start_remote_fault_handling e pfn is_write remote_acked_fault_count
       remote_node_id local_node_id s =
     (case lookup_fault pfn s of
        Some fh \<Rightarrow>
          if is_REMOTE fh then (None, s)
          else if has_lower_priority s fh is_write remote_acked_fault_count remote_node_id local_node_id
          then (None, s)
          else if is_write
          then (Some (set_flag FH_STATE_RETRY fh),
                modify_fault pfn (set_flag FH_STATE_RETRY) s)
          else (Some fh, s)
      | None \<Rightarrow>
          (case alloc_fault_handle e pfn s of
             (None, s1) \<Rightarrow> (None, s1)
           | (Some fh, s1) \<Rightarrow>
               (let fh' = init_fh_flags s1 True is_write fh
                in (Some fh', modify_fault pfn (\<lambda>_. fh') s1))))"

text \<open>\<open>__finish_remote_fault_handling\<close>: true when the handle was freed.\<close>

definition finish_remote_fault_handling :: "u64 \<Rightarrow> kstate \<Rightarrow> bool \<times> kstate" where
  "finish_remote_fault_handling pfn s =
     (case lookup_fault pfn s of
        None \<Rightarrow> (False, s)
      | Some fh \<Rightarrow>
          if complete fh
          then (False, modify_fault pfn (\<lambda>fh. fh\<lparr>complete := False\<rparr>)
                         (emit (Complete pfn) s))
          else if is_REMOTE fh then (True, hlist_del_init pfn s)
          else (False, s))"

text \<open>
  \<open>broadcast_message_and_wait\<close>. Both retry loops run until the environment's answer
  is a success; with no success among the answers the call never returns. Every call of
  \<open>swmc_kmsg_broadcast\<close> is recorded, whatever it returns. \<open>wait_at_station\<close> has no
  timeout.
\<close>

definition mk_payload :: "kstate \<Rightarrow> u64 \<Rightarrow> int \<Rightarrow> payload_data" where
  "mk_payload s pfn order =
     \<lparr>cxl_hdm_offset = pfn * word_of_nat PAGE_SIZE - cxl_hdm_base s, page_order = order,
      acked_fault_count = local_acked_fault_count s\<rparr>"

fun get_wait_station_loop :: "bool list \<Rightarrow> kstate \<Rightarrow> kstate option" where
  "get_wait_station_loop [] s = None"
| "get_wait_station_loop (got # rest) s =
     (if got then Some s else get_wait_station_loop rest (emit (Msleep 10) s))"

fun broadcast_loop :: "int list \<Rightarrow> event \<Rightarrow> kstate \<Rightarrow> kstate option" where
  "broadcast_loop [] ev s = None"
| "broadcast_loop (ret # rest) ev s =
     (if ret \<noteq> 0 then broadcast_loop rest ev (emit (Msleep 10) (emit ev s)) else Some (emit ev s))"

definition broadcast_message :: "env \<Rightarrow> int \<Rightarrow> u64 \<Rightarrow> int \<Rightarrow> kstate \<Rightarrow> kstate option" where
  "broadcast_message e mtype pfn order s =
     (case get_wait_station_loop (get_wait_station_answers e) s of
        None \<Rightarrow> None
      | Some s1 \<Rightarrow>
          broadcast_loop (broadcast_answers e)
            (Broadcast mtype (wait_station_id e) (mk_payload s pfn order)) s1)"

definition broadcast_message_and_wait ::
  "env \<Rightarrow> int \<Rightarrow> u64 \<Rightarrow> int \<Rightarrow> kstate \<Rightarrow> fault_error + (int \<times> kstate)" where
  "broadcast_message_and_wait e mtype pfn order s =
     (case broadcast_message e mtype pfn order s of
        None \<Rightarrow> Inl NeverReturns
      | Some s1 \<Rightarrow>
          (case wait_at_station_answer e of
             WaitForever \<Rightarrow> Inl NeverReturns
           | WaitNacked \<Rightarrow> Inr (- EAGAIN, s1)
           | WaitError r \<Rightarrow> Inr (r, s1)
           | WaitDone \<Rightarrow> Inr (0, s1)))"

text \<open>
  \<open>issue_page_coherence_transaction\<close>. \<open>ret\<close> has no initial value in the source: when
  neither broadcast runs, the later tests read \<open>uninitialized_ret\<close>.
\<close>

definition issue_page_coherence_transaction ::
  "env \<Rightarrow> fault_handle \<Rightarrow> kstate \<Rightarrow> fault_error + (int \<times> kstate)" where
  "issue_page_coherence_transaction e fh s =
     (case (if \<not> is_NEEDWRITE fh \<and> \<not> is_SHARED fh \<and> \<not> is_MODIFIED fh
            then broadcast_message_and_wait e SWMC_KMSG_TYPE_FETCH (original_pfn_val fh) 0 s
            else Inr (uninitialized_ret e, s)) of
        Inl x \<Rightarrow> Inl x
      | Inr (ret1, s1) \<Rightarrow>
          (case (if is_NEEDWRITE fh \<and> \<not> is_MODIFIED fh
                 then broadcast_message_and_wait e SWMC_KMSG_TYPE_INVALIDATE (original_pfn_val fh) 0 s1
                 else Inr (ret1, s1)) of
             Inl x \<Rightarrow> Inl x
           | Inr (ret, s2) \<Rightarrow>
               if ret = - EAGAIN then Inr (- EAGAIN, s2)
               else if ret \<noteq> 0 then Inr (ret, s2)
               else if is_REPLICATED fh \<and> \<not> is_SHARED fh
               then (case fetch_page_replica (original_page fh) s2 of
                       (r, s3) \<Rightarrow> if r \<noteq> 0 then Inr (r, s3) else Inr (0, s3))
               else Inr (0, s2)))"

definition issue_page_coherence_transaction_async ::
  "env \<Rightarrow> fault_handle \<Rightarrow> kstate \<Rightarrow> fault_error + (int \<times> kstate)" where
  "issue_page_coherence_transaction_async e fh s =
     (case broadcast_message e SWMC_KMSG_TYPE_FETCH (original_pfn_val fh) 0 s of
        None \<Rightarrow> Inl NeverReturns
      | Some s1 \<Rightarrow> Inr (0, s1))"

definition update_metadata :: "fault_handle \<Rightarrow> kstate \<Rightarrow> kstate" where
  "update_metadata fh s =
     (if is_REMOTE fh then
        (if is_NEEDWRITE fh
         then upd_page (original_page fh) (\<lambda>d. d\<lparr>PG_modified := False, PG_shared := False\<rparr>) s
         else upd_page (original_page fh) (\<lambda>d. d\<lparr>PG_shared := True, PG_modified := False\<rparr>) s)
      else
        (if is_NEEDWRITE fh
         then upd_page (original_page fh) (\<lambda>d. d\<lparr>PG_modified := True, PG_shared := False\<rparr>) s
         else upd_page (original_page fh) (\<lambda>d. d\<lparr>PG_shared := True, PG_modified := False\<rparr>) s))"

text \<open>\<open>pfn_t\<close>: the pfn with flag bits in the top twelve bits (kernel \<open>pfn_t.h\<close>).\<close>

definition PFN_FLAGS_MASK :: u64 where "PFN_FLAGS_MASK = 0xFFF0000000000000"

definition pfn_t_to_pfn :: "u64 \<Rightarrow> u64" where
  "pfn_t_to_pfn v = v AND NOT PFN_FLAGS_MASK"

definition map_vpn_to_pfn :: "fault_handle \<Rightarrow> u64 \<Rightarrow> kstate \<Rightarrow> u64" where
  "map_vpn_to_pfn fh pfn s =
     (let original_pfn_val' = pfn_t_to_pfn pfn;
          page_replica = get_replica_opt (pages s (original_page fh))
      in page_to_pfn page_replica OR (original_pfn_val' AND PFN_FLAGS_MASK))"

text \<open>
  \<open>writeback_page\<close> and \<open>invalidate_page\<close>. With REPLICATED set both read fields of the
  replica through the pointer \<open>get_replica_opt\<close> returns. The loop over the VMAs of
  the mapping is one \<open>MkcleanRange\<close> event.
\<close>

definition writeback_page :: "fault_handle \<Rightarrow> kstate \<Rightarrow> fault_error + kstate" where
  "writeback_page fh s =
     (if is_REPLICATED fh then
        (case writeback_page_replica (get_replica_opt (pages s (original_page fh))) s of
           Inl x \<Rightarrow> Inl x
         | Inr (r, s1) \<Rightarrow>
             (let page_replica = get_replica_opt (pages s1 (original_page fh)) in
              if page_replica = 0 then Inl NullPointerDereference
              else Inr (emit (MkcleanRange (page_to_pfn page_replica)
                                (page_index (pages s1 page_replica))
                                (page_mapping (pages s1 page_replica))) s1)))
      else Inr (emit (MkcleanRange (original_pfn_val fh)
                        (page_index (pages s (original_page fh)))
                        (page_mapping (pages s (original_page fh)))) s))"

definition invalidate_page :: "fault_handle \<Rightarrow> kstate \<Rightarrow> fault_error + kstate" where
  "invalidate_page fh s =
     (if is_REPLICATED fh then
        (let page_replica = get_replica_opt (pages s (original_page fh)) in
         if page_replica = 0 then Inl NullPointerDereference
         else Inr (emit (UnmapMappingPages (page_mapping (pages s page_replica))
                           (page_index (pages s page_replica)) 1) s))
      else Inr (emit (UnmapMappingPages (page_mapping (pages s (original_page fh)))
                        (page_index (pages s (original_page fh))) 1) s))"

text \<open>
  \<open>swmc_kmsg_handle_fetch_or_invalidate\<close>, run for a received message. The result is
  the return code and the state; every call of \<open>swmc_kmsg_unicast\<close> is a \<open>Unicast\<close>
  event with the reply type, the wait-station id and the destination node.
  \<open>reply_event\<close> is the unicast of the ACK or NACK matching the request;
  \<open>remote_fault_with_handle\<close> is the part of the function after
  \<open>__start_remote_fault_handling\<close> has returned a handle.
\<close>

definition reply_event :: "swmc_kmsg_message \<Rightarrow> bool \<Rightarrow> event" where
  "reply_event msg acked =
     (let is_write = (msg_type (header msg) = SWMC_KMSG_TYPE_INVALIDATE) in
      Unicast (if acked
               then (if is_write then SWMC_KMSG_TYPE_INVALIDATE_ACK else SWMC_KMSG_TYPE_FETCH_ACK)
               else (if is_write then SWMC_KMSG_TYPE_INVALIDATE_NACK else SWMC_KMSG_TYPE_FETCH_NACK))
        (ws_id (header msg)) (from_nid (header msg)) (payload msg))"

definition remote_fault_with_handle ::
  "env \<Rightarrow> swmc_kmsg_message \<Rightarrow> u64 \<Rightarrow> fault_handle \<Rightarrow> kstate \<Rightarrow> fault_error + (int \<times> kstate)" where
  "remote_fault_with_handle e msg original_pfn fh s1 =
     (if fh_action fh = 0
      then Inr (unicast_ret e,
                snd (finish_remote_fault_handling original_pfn (emit (reply_event msg True) s1)))
      else
        (case (if fh_action fh AND FH_ACTION_WRITEBACK \<noteq> 0 then writeback_page fh s1
               else Inr s1) of
           Inl x \<Rightarrow> Inl x
         | Inr s2 \<Rightarrow>
             (case (if fh_action fh AND FH_ACTION_INVALIDATE \<noteq> 0 then invalidate_page fh s2
                    else Inr s2) of
                Inl x \<Rightarrow> Inl x
              | Inr s3 \<Rightarrow>
                  (let s4 = (if fh_action fh AND FH_ACTION_UPDATE_METADATA \<noteq> 0
                             then update_metadata fh s3 else s3);
                       s5 = emit (reply_event msg True) s4;
                       exist = (lookup_fault original_pfn s5 \<noteq> None)
                   in
                   if \<not> exist then Inr (0, s5)
                   else Inr (0, snd (finish_remote_fault_handling original_pfn s5))))))"

definition swmc_kmsg_handle_fetch_or_invalidate ::
  "env \<Rightarrow> swmc_kmsg_message \<Rightarrow> kstate \<Rightarrow> fault_error + (int \<times> kstate)" where
  "swmc_kmsg_handle_fetch_or_invalidate e msg s =
     (let pl = payload msg; hdr = header msg in
      if msg_type hdr \<noteq> SWMC_KMSG_TYPE_FETCH \<and> msg_type hdr \<noteq> SWMC_KMSG_TYPE_INVALIDATE
      then Inr (- EINVAL, s)
      else
        (let original_phys_addr = cxl_hdm_base s + cxl_hdm_offset pl in
         if \<not> (page_order pl = 0 \<or> page_order pl = PMD_ORDER) then Inr (- EINVAL, s)
         else
           (let original_pfn = drop_bit PAGE_SHIFT original_phys_addr;
                is_write = (msg_type hdr = SWMC_KMSG_TYPE_INVALIDATE)
            in
            case start_remote_fault_handling e original_pfn is_write (acked_fault_count pl)
                   (from_nid hdr) (to_nid hdr) s of
              (None, s1) \<Rightarrow> Inr (unicast_ret e, emit (reply_event msg False) s1)
            | (Some fh, s1) \<Rightarrow> remote_fault_with_handle e msg original_pfn fh s1)))"

text \<open>\<open>strstr(haystack, needle) != NULL\<close>.\<close>

fun strstr :: "string \<Rightarrow> string \<Rightarrow> bool" where
  "strstr [] needle = (needle = [])"
| "strstr (c # cs) needle = (prefix needle (c # cs) \<or> strstr cs needle)"

text \<open>The transaction step of \<open>page_coherence_fault\<close> (source section "Issue Transaction").\<close>

definition issue_transaction_step ::
  "env \<Rightarrow> fault_handle \<Rightarrow> kstate \<Rightarrow> fault_error + (int \<times> kstate)" where
  "issue_transaction_step e fh s =
     (let nr_ift = nr_in_flight_transactions s in
      if fh_action fh AND FH_ACTION_ISSUE_SYNC_TRANSACTION \<noteq> 0 \<or> nr_ift > WAIT_STATION_THRESHOLD
      then
        (case issue_page_coherence_transaction e fh s of
           Inl x \<Rightarrow> Inl x
         | Inr (ret, s1) \<Rightarrow>
             if ret \<noteq> 0 then Inr (ret, s1)
             else Inr (0, s1\<lparr>nr_in_flight_transactions := nr_in_flight_transactions s1 + 1\<rparr>))
      else if fh_action fh AND FH_ACTION_ISSUE_ASYNC_TRANSACTION \<noteq> 0
      then
        (case issue_page_coherence_transaction_async e fh s of
           Inl x \<Rightarrow> Inl x
         | Inr (ret, s1) \<Rightarrow>
             if ret \<noteq> 0 then Inr (ret, s1)
             else Inr (0, s1\<lparr>nr_in_flight_transactions := nr_in_flight_transactions s1 + 1\<rparr>))
      else Inr (0, s))"

text \<open>
  \<open>page_coherence_fault\<close>, for the file name of the faulting VMA, the write flag of the
  iterator and the \<open>pfn_t\<close> passed in \<open>*pfn\<close>. The result is the return code, the final
  \<open>*pfn\<close> and the state. The source dereferences the handle
  (\<open>SetPageCoherence(fh->original_page)\<close>) before it tests it for NULL, so a NULL
  handle is a NULL dereference and the \<open>-ENOMEM\<close> return after it is not reached.
  \<open>count_fault\<close> is the section "Increment fault counters";
  \<open>local_fault_with_handle\<close> is the function from \<open>SetPageCoherence\<close> on, for a
  handle that is not NULL.
\<close>

definition count_fault :: "bool \<Rightarrow> kstate \<Rightarrow> kstate" where
  "count_fault write s =
     (let s0 = s\<lparr>page_coherence_fault_count := page_coherence_fault_count s + 1\<rparr> in
      if write
      then s0\<lparr>page_coherence_fault_write_count := page_coherence_fault_write_count s0 + 1\<rparr>
      else s0\<lparr>page_coherence_fault_read_count := page_coherence_fault_read_count s0 + 1\<rparr>)"

definition local_fault_with_handle ::
  "env \<Rightarrow> fault_handle \<Rightarrow> u64 \<Rightarrow> kstate \<Rightarrow> fault_error + (int \<times> u64 \<times> kstate)" where
  "local_fault_with_handle e fh pfn s2 =
     (let original_pfn = pfn_t_to_pfn pfn;
          s3 = upd_page (original_page fh) (\<lambda>d. d\<lparr>PG_coherence := True\<rparr>) s2
      in
      if fh_action fh = FH_ACTION_INVALID
      then Inr (- EINVAL, pfn, snd (finish_local_fault_handling original_pfn s3))
      else
        (let s4 = (if fh_action fh AND FH_ACTION_WAIT_FOR_ASYNC_TRANSACTION \<noteq> 0
                   then emit (Msleep 100) s3 else s3)
         in
         case issue_transaction_step e fh s4 of
           Inl x \<Rightarrow> Inl x
         | Inr (ret, s5) \<Rightarrow>
             if ret \<noteq> 0
             then Inr (ret, pfn, snd (finish_local_fault_handling original_pfn s5))
             else
               (let s6 = (if fh_action fh AND FH_ACTION_UPDATE_METADATA \<noteq> 0
                          then update_metadata fh s5 else s5);
                    pfn' = (if is_REPLICATED fh then map_vpn_to_pfn fh pfn s6 else pfn)
                in
                case finish_local_fault_handling original_pfn s6 of
                  (retry, s7) \<Rightarrow>
                    if retry then Inr (VM_FAULT_RETRY, pfn', emit (Msleep 1) s7)
                    else Inr (0, pfn', s7))))"

definition page_coherence_fault ::
  "env \<Rightarrow> string \<Rightarrow> bool \<Rightarrow> u64 \<Rightarrow> kstate \<Rightarrow> fault_error + (int \<times> u64 \<times> kstate)" where
  "page_coherence_fault e filename write pfn s =
     (let original_pfn = pfn_t_to_pfn pfn in
      if page_coherence_enabled s = 0 then Inr (0, pfn, s)
      else if original_pfn < drop_bit PAGE_SHIFT (cxl_hdm_base s) then Inr (0, pfn, s)
      else if strstr filename ''.log'' then Inr (0, pfn, s)
      else if strstr filename ''.superblock'' then Inr (0, pfn, s)
      else
        (case start_local_fault_handling e original_pfn write (count_fault write s) of
           Inl x \<Rightarrow> Inl x
         | Inr (None, s2) \<Rightarrow> Inl NullPointerDereference
         | Inr (Some fh, s2) \<Rightarrow> local_fault_with_handle e fh pfn s2))"

text \<open>
  \<open>handle_sampled_address\<close>. \<open>gup\<close> is the kernel's translation of the sampled virtual
  address of a process to its page (\<open>pid_task\<close>, \<open>get_task_mm\<close>,
  \<open>get_user_pages_remote\<close>); \<open>0\<close> stands for every failure of the three.
\<close>

definition handle_sampled_address ::
  "(u64 \<Rightarrow> int \<Rightarrow> u64) \<Rightarrow> u64 \<Rightarrow> int \<Rightarrow> kstate \<Rightarrow> sample_error + (int \<times> kstate)" where
  "handle_sampled_address gup virt_addr pid s =
     (let pg = gup virt_addr pid in
      if pg = 0 then Inr (- EINVAL, s)
      else if \<not> PG_coherence (pages s pg) then Inr (- EINVAL, s)
      else
        (case update_access_count (monitoring_age (daemon s)) (page_private (pages s pg))
                (hist (daemon s)) of
           Inl x \<Rightarrow> Inl x
         | Inr (private', hist', new_msb_index) \<Rightarrow>
             (let s1 = upd_page pg (\<lambda>d. d\<lparr>page_private := private'\<rparr>) s;
                  s2 = s1\<lparr>daemon := (daemon s1)\<lparr>hist := hist'\<rparr>\<rparr>
              in
              if (word_of_int new_msb_index :: u64) \<ge> hotness_threshold (daemon s2)
              then Inr (0, s2\<lparr>replication_candidate := replication_candidate s2 @ [pg]\<rparr>)
              else Inr (0, s2))))"

text \<open>The first \<open>n\<close> iterations of the cooling loop of \<open>kreplicationd\<close> (\<open>j = 1 .. n\<close>).\<close>

fun cool_upto :: "nat \<Rightarrow> u64 list \<Rightarrow> u64 list" where
  "cool_upto 0 h = h"
| "cool_upto (Suc n) h = cool_step (Suc n) (cool_upto n h)"

text \<open>The replies among the recorded events: the calls of \<open>swmc_kmsg_unicast\<close>.\<close>

fun is_reply :: "event \<Rightarrow> bool" where
  "is_reply (Unicast t w d p) = True"
| "is_reply ev = False"

definition replies :: "kstate \<Rightarrow> event list" where
  "replies s = filter is_reply (trace s)"

section \<open>Concrete states for evaluation\<close>

definition zero_page :: page where
  "zero_page = \<lparr>page_private = 0, memcg_data = 0, page_mapping = 0, page_index = 0,
                 PG_shared = False, PG_modified = False, PG_coherence = False,
                 contents = (\<lambda>_. 0)\<rparr>"

definition boot_state :: kstate where
  "boot_state =
     \<lparr>pages = (\<lambda>_. zero_page), replica_active_lru = [], replica_inactive_lru = [],
      page_replica_allocated_pages = 0, alloc_answers = [],
      faults = (\<lambda>_. []), local_acked_fault_count = 0, nr_in_flight_transactions = 0,
      cxl_hdm_base = 0x1e80000000, page_coherence_enabled = 1,
      page_coherence_fault_count = 0, page_coherence_fault_read_count = 0,
      page_coherence_fault_write_count = 0,
      daemon = \<lparr>hist = replicate 32 0, hotness_threshold = 10, monitoring_age = 0,
                 hot_page_percentile = 20\<rparr>,
      replication_candidate = [], trace = []\<rparr>"

text \<open>An environment in which every request succeeds at once and every peer ACKs.\<close>

definition calm_env :: env where
  "calm_env =
     \<lparr>kmem_cache_alloc_ok = True, unicast_ret = 0, get_wait_station_answers = [True],
      wait_station_id = 1, broadcast_answers = [0], wait_at_station_answer = WaitDone,
      wakeup = (\<lambda>s. Some s), uninitialized_ret = 0\<rparr>"

text \<open>The page struct of pfn \<open>0x1e80010\<close> (shared-window offset \<open>0x10000\<close>) and a local page.\<close>

definition shared_page :: u64 where "shared_page = pfn_to_page 0x1e80010"
definition local_page :: u64 where "local_page = pfn_to_page 0x1000"

text \<open>A daemon state with four pages counted in bucket 1.\<close>

definition sample_daemon :: daemon_state where
  "sample_daemon = \<lparr>hist = 0 # 4 # replicate 30 0, hotness_threshold = 10, monitoring_age = 0,
                     hot_page_percentile = 20\<rparr>"

text \<open>The shared page after its first fault: coherence-enabled, never sampled.\<close>

definition sampled_state :: kstate where
  "sampled_state = upd_page shared_page (\<lambda>d. d\<lparr>PG_coherence := True\<rparr>) boot_state"

definition sample_gup :: "u64 \<Rightarrow> int \<Rightarrow> u64" where
  "sample_gup virt_addr pid = (if virt_addr = 0x7f0000010000 \<and> pid = 42 then shared_page else 0)"




definition busy_state :: kstate where
  "busy_state =
     boot_state\<lparr>faults := (\<lambda>_. [])(fault_hash_key 0x1e80010 :=
        [\<lparr>original_pfn_val = 0x1e80010, original_page = shared_page,
          fh_flags = FH_STATE_REMOTE OR FH_STATE_NEEDWRITE, fh_action = FH_ACTION_RESPOND,
          complete = False\<rparr>])\<rparr>"

definition waiter_env :: env where
  "waiter_env = calm_env\<lparr>wakeup := (\<lambda>s. Some (snd (finish_remote_fault_handling 0x1e80010 s)))\<rparr>"


text \<open>
  Two writers of the shared page. The local write fault is in progress (a handle with
  NEEDWRITE and the action of the table for a first write), and both nodes have five
  acknowledged faults. \<open>invalidate_msg sender receiver\<close> is the INVALIDATE the other
  writer sends; the transport stores the receiver in \<open>to_nid\<close>.
\<close>

definition invalidate_msg :: "int \<Rightarrow> int \<Rightarrow> swmc_kmsg_message" where
  "invalidate_msg sender receiver =
     \<lparr>header = \<lparr>msg_type = SWMC_KMSG_TYPE_INVALIDATE, ws_id = 9, from_nid = sender, to_nid = receiver\<rparr>,
      payload = \<lparr>cxl_hdm_offset = 0x10000, page_order = 0, acked_fault_count = 5\<rparr>\<rparr>"

definition writer_handle :: fault_handle where
  "writer_handle = \<lparr>original_pfn_val = 0x1e80010, original_page = shared_page,
                     fh_flags = FH_STATE_NEEDWRITE,
                     fh_action = FH_ACTION_ISSUE_SYNC_TRANSACTION OR FH_ACTION_UPDATE_METADATA
                                   OR FH_ACTION_MAP_VPN_TO_PFN,
                     complete = False\<rparr>"

definition writer_state :: kstate where
  "writer_state =
     boot_state\<lparr>local_acked_fault_count := 5,
                faults := (\<lambda>_. [])(fault_hash_key 0x1e80010 := [writer_handle])\<rparr>"



definition rwms_state :: kstate where
  "rwms_state =
     upd_page shared_page
       (\<lambda>d. d\<lparr>page_private := local_page, PG_modified := True, PG_shared := True\<rparr>) boot_state"

section \<open>Properties of the messaging ring\<close>

text \<open>
  Claim C7. When the ring already holds \<open>capacity - 1\<close> messages
  (\<open>head - tail = CXL_KMSG_RBUF_SIZE - 1\<close>), \<open>win_put\<close> returns an error and leaves the
  ring as it was: head, tail and every slot keep their values. The error is \<open>-EAGAIN\<close>
  (the "dropped" code) for every message that passes \<open>__validate_kmsg\<close>, which is
  checked first; a message failing it is refused with \<open>-EINVAL\<close>, also without any
  change.
\<close>

theorem win_put_full_dropped:
  assumes "head win - tail win = word_of_nat (CXL_KMSG_RBUF_SIZE - 1)"
  shows "snd (win_put win msg) = win \<and> fst (win_put win msg) \<noteq> 0
     \<and> (if validate_kmsg msg = 0 then fst (win_put win msg) = - EAGAIN
        else fst (win_put win msg) = - EINVAL)"
  using assms
  by (auto simp: win_put_def win_inuse_def Let_def validate_kmsg_def EAGAIN_def EINVAL_def
      split: option.splits)

theorem win_put_full_dropped_witness:
  "head full_window - tail full_window = word_of_nat (CXL_KMSG_RBUF_SIZE - 1)
   \<and> validate_kmsg (Some sample_ack) = 0
   \<and> win_put full_window (Some sample_ack) = (- EAGAIN, full_window)"
proof -
  have h: "head full_window - tail full_window = word_of_nat (CXL_KMSG_RBUF_SIZE - 1)"
    by (simp add: full_window_def cxl_kmsg_window_init_def CXL_KMSG_RBUF_SIZE_def)
  have v: "validate_kmsg (Some sample_ack) = 0"
    by (simp add: validate_kmsg_def sample_ack_def SWMC_KMSG_TYPE_MAX_def)
  from win_put_full_dropped [OF h, of "Some sample_ack"] v h show ?thesis
    by (simp add: prod_eq_iff)
qed

section \<open>Properties of the histogram\<close>

lemma cool_upto_fold: "fold cool_step [1..<Suc n] h = cool_upto n h"
  by (induction n) simp_all

lemma cool_upto_length: "length (cool_upto n h) = length h"
  by (induction n) (simp_all add: cool_step_def)

lemma cool_upto_above: "n < i \<Longrightarrow> cool_upto n h ! i = h ! i"
  by (induction n) (simp_all add: cool_step_def)

lemma cool_upto_last: "0 < n \<Longrightarrow> n < length h \<Longrightarrow> cool_upto n h ! n = 0"
  by (cases n) (simp_all add: cool_step_def cool_upto_length)

lemma cool_upto_zero: "0 < n \<Longrightarrow> n < length h \<Longrightarrow> cool_upto n h ! 0 = h ! 0 + h ! 1"
proof (induction n)
  case 0
  then show ?case by simp
next
  case (Suc n)
  show ?case
  proof (cases n)
    case 0
    then show ?thesis using Suc.prems by (cases h) (simp_all add: cool_step_def)
  next
    case (Suc m)
    then show ?thesis using Suc.IH Suc.prems by (simp add: cool_step_def)
  qed
qed

lemma cool_upto_mid:
  "1 \<le> i \<Longrightarrow> i < n \<Longrightarrow> n < length h \<Longrightarrow> cool_upto n h ! i = h ! Suc i"
proof (induction n)
  case 0
  then show ?case by simp
next
  case (Suc n)
  show ?case
  proof (cases "i = n")
    case True
    have "cool_upto n h ! n = 0" using Suc.prems True by (simp add: cool_upto_last)
    moreover have "cool_upto n h ! Suc n = h ! Suc n" by (simp add: cool_upto_above)
    ultimately show ?thesis using True Suc.prems
      by (simp add: cool_step_def cool_upto_length)
  next
    case False
    then have "i < n" using Suc.prems by simp
    then have "cool_upto n h ! i = h ! Suc i" using Suc.IH Suc.prems by simp
    then show ?thesis using False \<open>i < n\<close> by (simp add: cool_step_def)
  qed
qed

lemma cool_down_histogram_upto: "cool_down_histogram h = cool_upto 31 h"
  unfolding cool_down_histogram_def using cool_upto_fold [of 31 h] by simp

text \<open>
  Claim C9, as the code has it. The cooling step at the end of a replication-interval
  tick does not halve the buckets: it moves every bucket one index down. Bucket 0
  receives its own value plus that of bucket 1, bucket \<open>i\<close> (\<open>1 \<le> i \<le> 30\<close>) receives
  the value bucket \<open>i + 1\<close> had, and bucket 31 becomes 0. (A page counted in bucket
  \<open>i\<close> has its most significant bit at \<open>i\<close>; halving the page's count moves it to
  bucket \<open>i - 1\<close>.) The threshold and the age are as computed before the cooling.
\<close>

theorem cooling_shifts_buckets_down:
  assumes "length (hist d) = 32"
  shows "hist (replication_tick_end d) ! 0 = hist d ! 0 + hist d ! 1
       \<and> (\<forall>i. 1 \<le> i \<and> i < 31 \<longrightarrow> hist (replication_tick_end d) ! i = hist d ! Suc i)
       \<and> hist (replication_tick_end d) ! 31 = 0
       \<and> length (hist (replication_tick_end d)) = 32
       \<and> monitoring_age (replication_tick_end d) = monitoring_age d + 1"
  using assms
  by (simp add: replication_tick_end_def Let_def cool_down_histogram_upto
      cool_upto_zero cool_upto_mid cool_upto_last cool_upto_length)

theorem cooling_shifts_buckets_down_witness:
  "length (hist sample_daemon) = 32
   \<and> hist (replication_tick_end sample_daemon) ! 0 = 4
   \<and> hist (replication_tick_end sample_daemon) ! 1 = 0
   \<and> hist (replication_tick_end sample_daemon) ! 31 = 0"
proof -
  have l: "length (hist sample_daemon) = 32" by (simp add: sample_daemon_def)
  from cooling_shifts_buckets_down [OF l] l show ?thesis
    by (simp add: sample_daemon_def)
qed

text \<open>
  Claim C9 as stated fails: with four pages in bucket 1, the bucket holds 0 after the
  cooling step, not 2.
\<close>

theorem cooling_halves_counterexample:
  "hist (replication_tick_end sample_daemon) ! 1 \<noteq> hist sample_daemon ! 1 div 2"
proof -
  have "cool_down_histogram (0 # 4 # replicate 30 0) ! 1 = cool_upto 31 (0 # 4 # replicate 30 0) ! 1"
    by (simp only: cool_down_histogram_upto)
  also have "\<dots> = (0 # 4 # replicate 30 0) ! Suc 1"
    by (rule cool_upto_mid) simp_all
  finally have "cool_down_histogram (0 # 4 # replicate 30 0) ! 1 = 0" by simp
  then show ?thesis
    by (simp add: replication_tick_end_def sample_daemon_def Let_def)
qed

text \<open>
  Claim C10. The first sample of a page finds the access count 0 in \<open>page->private\<close>.
  The old MSB index is then \<open>fls64(0) - 1 = -1\<close>, the new one is 0, they differ, and the
  update decrements \<open>hist[-1]\<close>: an access outside the 32 buckets. The theorem
  evaluates \<open>handle_sampled_address\<close> on the first sample of a coherence-enabled page.
\<close>

theorem first_sample_indexes_hist_minus_one:
  "handle_sampled_address sample_gup 0x7f0000010000 42 sampled_state
     = Inl (HistIndexOutOfBounds (- 1))"
  by (simp add: handle_sampled_address_def sample_gup_def sampled_state_def boot_state_def
      shared_page_def pfn_to_page_def VMEMMAP_START_def upd_page_def zero_page_def Let_def
      update_access_count_def swmc_access_count_def swmc_last_accessed_age_def fls64_def
      fls_nat.simps hist_dec_def)

section \<open>Properties of the replica pool\<close>

lemma pages_upd_page [simp]: "pages (upd_page p f s) = (pages s)(p := f (pages s p))"
  by (simp add: upd_page_def)

lemma lru_upd_page [simp]:
  "replica_active_lru (upd_page p f s) = replica_active_lru s"
  "replica_inactive_lru (upd_page p f s) = replica_inactive_lru s"
  by (simp_all add: upd_page_def)

lemma fields_emit [simp]:
  "pages (emit ev s) = pages s"
  "replica_active_lru (emit ev s) = replica_active_lru s"
  "replica_inactive_lru (emit ev s) = replica_inactive_lru s"
  by (simp_all add: emit_def)

lemma fields_free_replica_pages [simp]:
  "pages (free_replica_pages p n s) = pages s"
  "replica_active_lru (free_replica_pages p n s) = replica_active_lru s"
  "replica_inactive_lru (free_replica_pages p n s) = replica_inactive_lru s"
  by (simp_all add: free_replica_pages_def track_page_free_def)

lemma fields_replica_lru [simp]:
  "pages (insert_replica_lru p s) = pages s"
  "pages (remove_replica_lru p s) = pages s"
  "replica_active_lru (remove_replica_lru p s) = removeAll p (replica_active_lru s)"
  "replica_inactive_lru (remove_replica_lru p s) = removeAll p (replica_inactive_lru s)"
  by (simp_all add: insert_replica_lru_def remove_replica_lru_def replica_lru_add_active_def
      replica_lru_del_def)











lemma sample_pages: "local_page = 0xffffea0000040000" "shared_page = 0xffffea007a000400"
  by (simp_all add: local_page_def shared_page_def pfn_to_page_def VMEMMAP_START_def)



section \<open>Properties of the fault engine\<close>

lemma single_bit: "(x::u64) AND 2 ^ n = 0 \<or> x AND 2 ^ n = 2 ^ n"
proof (cases "bit x n")
  case False
  then show ?thesis by (simp add: and_exp_eq_0_iff_not_bit)
next
  case True
  have "x AND 2 ^ n = 2 ^ n"
    by (rule bit_eqI) (use True in \<open>auto simp: bit_and_iff bit_exp_iff\<close>)
  then show ?thesis by simp
qed

lemma remote_bit: "(x::u64) AND 0x10 = 0 \<or> x AND 0x10 = 0x10"
  using single_bit [of x 4] by simp

lemma index_split: "(x::u64) AND 0x1F = (x AND 0xF) OR (x AND 0x10)"
proof -
  have "x AND 0x1F = x AND (0xF OR 0x10)" by simp
  then show ?thesis by (simp only: bit.conj_disj_distrib)
qed

lemma fields_emit2 [simp]:
  "faults (emit ev s) = faults s"
  "trace (emit ev s) = trace s @ [ev]"
  "lookup_fault pfn (emit ev s) = lookup_fault pfn s"
  by (simp_all add: emit_def lookup_fault_def)

lemma fields_upd_page2 [simp]:
  "faults (upd_page p f s) = faults s"
  "trace (upd_page p f s) = trace s"
  "lookup_fault pfn (upd_page p f s) = lookup_fault pfn s"
  by (simp_all add: upd_page_def lookup_fault_def)

lemma fields_modify_fault [simp]:
  "pages (modify_fault pfn f s) = pages s"
  "trace (modify_fault pfn f s) = trace s"
  by (simp_all add: modify_fault_def)

lemma fields_hlist_del_init [simp]:
  "pages (hlist_del_init pfn s) = pages s"
  "trace (hlist_del_init pfn s) = trace s"
  by (simp_all add: hlist_del_init_def)

lemma fields_count_fault [simp]:
  "pages (count_fault w s) = pages s"
  "faults (count_fault w s) = faults s"
  "trace (count_fault w s) = trace s"
  "nr_in_flight_transactions (count_fault w s) = nr_in_flight_transactions s"
  "lookup_fault pfn (count_fault w s) = lookup_fault pfn s"
  by (simp_all add: count_fault_def lookup_fault_def Let_def)

lemma init_fh_flags_fields [simp]:
  "original_pfn_val (init_fh_flags s remote w fh) = original_pfn_val fh"
  "original_page (init_fh_flags s remote w fh) = original_page fh"
  "complete (init_fh_flags s remote w fh) = complete fh"
  by (simp_all add: init_fh_flags_def set_fh_action_def check_metadata_def Let_def
      set_flag_def clear_flag_def FH_CLEAR_FLAG_ALL_def)

lemma init_fh_flags_index:
  "fh_flags (init_fh_flags s remote w fh) AND 0x1F
     = (if remote then 0x10 else 0) OR (if w then 4 else 0)
       OR (if get_replica_opt (pages s (original_page fh)) \<noteq> 0 then 8 else 0)
       OR (if PG_modified (pages s (original_page fh)) then 2 else 0)
       OR (if PG_shared (pages s (original_page fh)) then 1 else 0)"
  by (simp add: init_fh_flags_def set_fh_action_def check_metadata_def Let_def
      set_flag_def clear_flag_def FH_CLEAR_FLAG_ALL_def fh_state_defs
      bit.conj_disj_distrib2 and.assoc)

lemma init_fh_flags_action:
  "fh_action (init_fh_flags s remote w fh)
     = fh_action_table ! unat (fh_flags (init_fh_flags s remote w fh) AND 0x1F)"
  by (simp add: init_fh_flags_def set_fh_action_def Let_def)

lemma init_fh_flags_is:
  "is_REMOTE (init_fh_flags s remote w fh) = remote"
  "is_NEEDWRITE (init_fh_flags s remote w fh) = w"
  "is_REPLICATED (init_fh_flags s remote w fh) = (get_replica_opt (pages s (original_page fh)) \<noteq> 0)"
  "is_MODIFIED (init_fh_flags s remote w fh) = PG_modified (pages s (original_page fh))"
  "is_SHARED (init_fh_flags s remote w fh) = PG_shared (pages s (original_page fh))"
  "is_RETRY (init_fh_flags s remote w fh) = False"
  by (simp_all add: is_flag_def init_fh_flags_def set_fh_action_def check_metadata_def Let_def
      set_flag_def clear_flag_def FH_CLEAR_FLAG_ALL_def fh_state_defs
      bit.conj_disj_distrib2 and.assoc)

lemma table_15_31: "fh_action_table ! 15 = FH_ACTION_INVALID" "fh_action_table ! 31 = FH_ACTION_INVALID"
  by (simp_all add: fh_action_table_def numeral_eq_Suc)

lemma upd_fh_head: "original_pfn_val fh = pfn \<Longrightarrow> upd_fh pfn f (fh # rest) = f fh # rest"
  by simp

lemma start_local_fresh:
  assumes "lookup_fault opfn s = None" "kmem_cache_alloc_ok e"
  shows "start_local_fault_handling e opfn w s
     = Inr (Some (init_fh_flags s False w
                    \<lparr>original_pfn_val = opfn, original_page = pfn_to_page opfn, fh_flags = 0,
                     fh_action = 0, complete = False\<rparr>),
            s\<lparr>faults := (faults s)(fault_hash_key opfn :=
                 init_fh_flags s False w
                    \<lparr>original_pfn_val = opfn, original_page = pfn_to_page opfn, fh_flags = 0,
                     fh_action = 0, complete = False\<rparr> # faults s (fault_hash_key opfn))\<rparr>)"
  using assms
  by (simp add: start_local_fault_handling_def alloc_fault_handle_def Let_def modify_fault_def
      init_fh_flags_def check_metadata_def)

lemma start_remote_fresh:
  assumes "lookup_fault opfn s = None" "kmem_cache_alloc_ok e"
  shows "start_remote_fault_handling e opfn w rc rn ln s
     = (Some (init_fh_flags s True w
                    \<lparr>original_pfn_val = opfn, original_page = pfn_to_page opfn, fh_flags = 0,
                     fh_action = 0, complete = False\<rparr>),
            s\<lparr>faults := (faults s)(fault_hash_key opfn :=
                 init_fh_flags s True w
                    \<lparr>original_pfn_val = opfn, original_page = pfn_to_page opfn, fh_flags = 0,
                     fh_action = 0, complete = False\<rparr> # faults s (fault_hash_key opfn))\<rparr>)"
  using assms
  by (simp add: start_remote_fault_handling_def alloc_fault_handle_def Let_def modify_fault_def
      init_fh_flags_def check_metadata_def)

lemma invalid_cell_index:
  assumes "fh_flags fh AND 0xF = 0xF"
  shows "fh_action (set_fh_action fh) = FH_ACTION_INVALID"
proof -
  from remote_bit [of "fh_flags fh"] index_split [of "fh_flags fh"] assms
  have "fh_flags fh AND 0x1F = 0xF \<or> fh_flags fh AND 0x1F = 0x1F" by auto
  then show ?thesis
    by (auto simp: set_fh_action_def table_15_31)
qed

text \<open>
  Claim C6. Flags that include REPLICATED, NEEDWRITE, MODIFIED and SHARED select the
  invalid (empty) action, on the local and on the remote side of the table. A local
  write fault on such a page (no fault in progress for it) returns \<open>-EINVAL\<close> having
  done nothing but count the fault and set \<open>PG_coherence\<close>: no transaction, no metadata
  update, no mapping, and the handle is removed. An INVALIDATE received for such a page
  is answered with the ACK and nothing else happens: no writeback, no invalidation, no
  metadata update, and the handle is removed again.
\<close>

theorem invalid_cell_dispatches_no_work:
  assumes pg: "get_replica_opt (pages s (pfn_to_page opfn)) \<noteq> 0"
              "PG_modified (pages s (pfn_to_page opfn))" "PG_shared (pages s (pfn_to_page opfn))"
    and fresh: "lookup_fault opfn s = None" "kmem_cache_alloc_ok e"
  shows "(\<forall>fh. fh_flags fh AND 0xF = 0xF \<longrightarrow> fh_action (set_fh_action fh) = FH_ACTION_INVALID)
    \<and> (page_coherence_enabled s \<noteq> 0 \<and> pfn_t_to_pfn pfn = opfn
         \<and> \<not> opfn < drop_bit PAGE_SHIFT (cxl_hdm_base s)
         \<and> \<not> strstr filename ''.log'' \<and> \<not> strstr filename ''.superblock''
       \<longrightarrow> page_coherence_fault e filename True pfn s
           = Inr (- EINVAL, pfn,
                  upd_page (pfn_to_page opfn) (\<lambda>d. d\<lparr>PG_coherence := True\<rparr>)
                    (count_fault True s)))
    \<and> (msg_type (header msg) = SWMC_KMSG_TYPE_INVALIDATE
         \<and> (page_order (payload msg) = 0 \<or> page_order (payload msg) = PMD_ORDER)
         \<and> drop_bit PAGE_SHIFT (cxl_hdm_base s + cxl_hdm_offset (payload msg)) = opfn
       \<longrightarrow> swmc_kmsg_handle_fetch_or_invalidate e msg s
           = Inr (unicast_ret e, emit (reply_event msg True) s))"
proof (intro conjI impI allI)
  fix fh :: fault_handle
  assume "fh_flags fh AND 0xF = 0xF"
  then show "fh_action (set_fh_action fh) = FH_ACTION_INVALID" by (rule invalid_cell_index)
next
  let ?fh0 = "\<lparr>original_pfn_val = opfn, original_page = pfn_to_page opfn, fh_flags = 0,
                fh_action = 0, complete = False\<rparr>"
  assume a: "page_coherence_enabled s \<noteq> 0 \<and> pfn_t_to_pfn pfn = opfn
         \<and> \<not> opfn < drop_bit PAGE_SHIFT (cxl_hdm_base s)
         \<and> \<not> strstr filename ''.log'' \<and> \<not> strstr filename ''.superblock''"
  let ?s1 = "count_fault True s"
  have l: "lookup_fault opfn ?s1 = None" using fresh(1) by simp
  have act: "fh_action (init_fh_flags ?s1 False True ?fh0) = FH_ACTION_INVALID"
    using pg by (simp add: init_fh_flags_action init_fh_flags_index table_15_31)
  show "page_coherence_fault e filename True pfn s
           = Inr (- EINVAL, pfn, upd_page (pfn_to_page opfn) (\<lambda>d. d\<lparr>PG_coherence := True\<rparr>) ?s1)"
    using a act
    by (simp add: page_coherence_fault_def local_fault_with_handle_def Let_def
        start_local_fresh [OF l fresh(2)]
        finish_local_fault_handling_def hlist_del_init_def upd_page_def)
next
  let ?fh0 = "\<lparr>original_pfn_val = opfn, original_page = pfn_to_page opfn, fh_flags = 0,
                fh_action = 0, complete = False\<rparr>"
  assume a: "msg_type (header msg) = SWMC_KMSG_TYPE_INVALIDATE
         \<and> (page_order (payload msg) = 0 \<or> page_order (payload msg) = PMD_ORDER)
         \<and> drop_bit PAGE_SHIFT (cxl_hdm_base s + cxl_hdm_offset (payload msg)) = opfn"
  have act: "fh_action (init_fh_flags s True True ?fh0) = 0"
    using pg by (simp add: init_fh_flags_action init_fh_flags_index table_15_31 FH_ACTION_INVALID_def)
  have c: "\<not> complete (init_fh_flags s True True ?fh0)" by simp
  have r: "is_REMOTE (init_fh_flags s True True ?fh0)" by (simp add: init_fh_flags_is)
  show "swmc_kmsg_handle_fetch_or_invalidate e msg s
           = Inr (unicast_ret e, emit (reply_event msg True) s)"
    using a act c r
    by (auto simp add: swmc_kmsg_handle_fetch_or_invalidate_def remote_fault_with_handle_def Let_def
        start_remote_fresh [OF fresh] finish_remote_fault_handling_def lookup_fault_def
        hlist_del_init_def emit_def kmsg_type_defs)
qed






text \<open>
  Claim C5. A local fault finds a handle for its page, attaches and sleeps; when it is
  woken the handle has NEEDWRITE set. \<open>__start_local_fault_handling\<close> then frees the
  handle and returns NULL ("needs to be redone"), and \<open>page_coherence_fault\<close> reads
  \<open>fh->original_page\<close> through that NULL pointer before it tests it: the fault does not
  return \<open>VM_FAULT_RETRY\<close>, it dereferences NULL. (The test that follows would return
  \<open>-ENOMEM\<close>.)
\<close>

theorem woken_waiter_dereferences_null:
  assumes run: "page_coherence_enabled s \<noteq> 0"
               "\<not> pfn_t_to_pfn pfn < drop_bit PAGE_SHIFT (cxl_hdm_base s)"
               "\<not> strstr filename ''.log''" "\<not> strstr filename ''.superblock''"
    and busy: "lookup_fault (pfn_t_to_pfn pfn) s = Some fh0"
    and woken: "wakeup e (modify_fault (pfn_t_to_pfn pfn) (\<lambda>fh. fh\<lparr>complete := True\<rparr>)
                            (count_fault write s)) = Some s1"
    and nw: "lookup_fault (pfn_t_to_pfn pfn) s1 = Some fh" "is_NEEDWRITE fh"
  shows "start_local_fault_handling e (pfn_t_to_pfn pfn) write (count_fault write s)
           = Inr (None, hlist_del_init (pfn_t_to_pfn pfn) s1)
       \<and> page_coherence_fault e filename write pfn s = Inl NullPointerDereference"
proof -
  have "start_local_fault_handling e (pfn_t_to_pfn pfn) write (count_fault write s)
           = Inr (None, hlist_del_init (pfn_t_to_pfn pfn) s1)"
    using busy woken nw by (simp add: start_local_fault_handling_def)
  then show ?thesis using run by (simp add: page_coherence_fault_def Let_def)
qed





lemma replies_simps [simp]:
  "replies (emit ev s) = replies s @ (if is_reply ev then [ev] else [])"
  "replies (upd_page p f s) = replies s"
  "replies (modify_fault pfn g s) = replies s"
  "replies (hlist_del_init pfn s) = replies s"
  by (simp_all add: replies_def)

lemma is_reply_reply_event [simp]: "is_reply (reply_event msg acked)"
  by (simp add: reply_event_def Let_def)

lemma find_fh_key: "find_fh pfn l = Some fh \<Longrightarrow> original_pfn_val fh = pfn"
  by (induction l) (auto split: if_splits)

lemma find_fh_upd_fh:
  "(\<And>fh. original_pfn_val (f fh) = original_pfn_val fh)
     \<Longrightarrow> find_fh pfn (upd_fh pfn f l) = map_option f (find_fh pfn l)"
  by (induction l) auto

lemma lookup_modify_fault:
  "(\<And>fh. original_pfn_val (f fh) = original_pfn_val fh)
     \<Longrightarrow> lookup_fault pfn (modify_fault pfn f s) = map_option f (lookup_fault pfn s)"
  by (simp add: lookup_fault_def modify_fault_def find_fh_upd_fh)

lemma lookup_key: "lookup_fault pfn s = Some fh \<Longrightarrow> original_pfn_val fh = pfn"
  by (simp add: lookup_fault_def find_fh_key)

lemma finish_remote_replies:
  "replies (snd (finish_remote_fault_handling pfn s)) = replies s"
  by (simp add: finish_remote_fault_handling_def split: option.splits)

lemma start_remote_found:
  "lookup_fault pfn s = Some fh \<Longrightarrow>
   start_remote_fault_handling e pfn w rc rn ln s
     = (if is_REMOTE fh then (None, s)
        else if has_lower_priority s fh w rc rn ln then (None, s)
        else if w then (Some (set_flag FH_STATE_RETRY fh), modify_fault pfn (set_flag FH_STATE_RETRY) s)
        else (Some fh, s))"
  by (simp add: start_remote_fault_handling_def)







lemma update_metadata_keeps [simp]:
  "replies (update_metadata fh s) = replies s"
  "lookup_fault pfn (update_metadata fh s) = lookup_fault pfn s"
  "faults (update_metadata fh s) = faults s"
  by (simp_all add: update_metadata_def)


lemma local_index: "(x::u64) AND 0x10 = 0 \<Longrightarrow> unat (x AND 0x1F) < 16"
proof -
  assume a: "x AND 0x10 = 0"
  have e: "x AND 0x1F = x AND 0xF" using index_split [of x] a by simp
  have "x AND 0xF \<le> 0xF" by (rule word_and_le1)
  then have "unat (x AND 0xF) \<le> unat (0xF :: u64)" by (simp add: word_le_nat_alt)
  then show ?thesis using e by simp
qed

lemma table_local:
  "i < 16 \<Longrightarrow> fh_action_table ! i AND FH_ACTION_WRITEBACK = 0
              \<and> fh_action_table ! i AND FH_ACTION_INVALIDATE = 0"
proof -
  assume a: "i < 16"
  let ?P = "\<lambda>a. a AND FH_ACTION_WRITEBACK = 0 \<and> a AND FH_ACTION_INVALIDATE = 0"
  have "list_all ?P (take 16 fh_action_table)"
    by (simp add: fh_action_table_def fh_action_defs)
  then have "\<forall>n < length (take 16 fh_action_table). ?P (take 16 fh_action_table ! n)"
    by (simp only: list_all_length)
  moreover have "length fh_action_table = 32" by (simp add: fh_action_table_def)
  ultimately show ?thesis using a by simp
qed

lemma local_handle_safe:
  assumes "\<not> is_REMOTE fh" "fh_action fh = fh_action_table ! unat (fh_flags fh AND 0x1F)"
  shows "fh_action fh AND FH_ACTION_WRITEBACK = 0 \<and> fh_action fh AND FH_ACTION_INVALIDATE = 0"
proof -
  from assms(1) have "fh_flags fh AND 0x10 = 0" by (simp add: is_flag_def FH_STATE_REMOTE_def)
  then have "unat (fh_flags fh AND 0x1F) < 16" by (rule local_index)
  from table_local [OF this] assms(2) show ?thesis by simp
qed

lemma set_retry_keeps [simp]:
  "fh_action (set_flag FH_STATE_RETRY fh) = fh_action fh"
  "original_pfn_val (set_flag FH_STATE_RETRY fh) = original_pfn_val fh"
  "original_page (set_flag FH_STATE_RETRY fh) = original_page fh"
  "is_REMOTE (set_flag FH_STATE_RETRY fh) = is_REMOTE fh"
  "is_RETRY (set_flag FH_STATE_RETRY fh)"
  by (simp_all add: set_flag_def is_flag_def fh_state_defs bit.conj_disj_distrib2)

lemma handler_unfold:
  assumes "msg_type (header msg) = SWMC_KMSG_TYPE_FETCH \<or> msg_type (header msg) = SWMC_KMSG_TYPE_INVALIDATE"
    and "page_order (payload msg) = 0 \<or> page_order (payload msg) = PMD_ORDER"
  shows "swmc_kmsg_handle_fetch_or_invalidate e msg s
     = (case start_remote_fault_handling e
              (drop_bit PAGE_SHIFT (cxl_hdm_base s + cxl_hdm_offset (payload msg)))
              (msg_type (header msg) = SWMC_KMSG_TYPE_INVALIDATE)
              (acked_fault_count (payload msg)) (from_nid (header msg)) (to_nid (header msg)) s of
          (None, s1) \<Rightarrow> Inr (unicast_ret e, emit (reply_event msg False) s1)
        | (Some fh, s1) \<Rightarrow>
            remote_fault_with_handle e msg
              (drop_bit PAGE_SHIFT (cxl_hdm_base s + cxl_hdm_offset (payload msg))) fh s1)"
  using assms by (auto simp add: swmc_kmsg_handle_fetch_or_invalidate_def Let_def)


lemma finish_remote_local:
  assumes "lookup_fault pfn s = Some fh" "\<not> is_REMOTE fh"
  shows "\<exists>fh'. lookup_fault pfn (snd (finish_remote_fault_handling pfn s)) = Some fh'
           \<and> fh_flags fh' = fh_flags fh"
proof (cases "complete fh")
  case True
  then have "snd (finish_remote_fault_handling pfn s)
      = modify_fault pfn (\<lambda>fh. fh\<lparr>complete := False\<rparr>) (emit (Complete pfn) s)"
    using assms by (simp add: finish_remote_fault_handling_def)
  then show ?thesis using assms(1) by (simp add: lookup_modify_fault)
next
  case False
  then have "snd (finish_remote_fault_handling pfn s) = s"
    using assms by (simp add: finish_remote_fault_handling_def)
  then show ?thesis using assms(1) by simp
qed

lemma remote_fault_with_local_handle:
  assumes l: "lookup_fault pfn s1 = Some fh" and nr: "\<not> is_REMOTE fh"
    and z: "fh_action fh AND FH_ACTION_WRITEBACK = 0" "fh_action fh AND FH_ACTION_INVALIDATE = 0"
  shows "\<exists>ret s'. remote_fault_with_handle e msg pfn fh s1 = Inr (ret, s')
           \<and> replies s' = replies s1 @ [reply_event msg True]
           \<and> (\<exists>fh'. lookup_fault pfn s' = Some fh' \<and> fh_flags fh' = fh_flags fh)"
proof -
  define s5 where "s5 = emit (reply_event msg True)
       (if fh_action fh \<noteq> 0 \<and> fh_action fh AND FH_ACTION_UPDATE_METADATA \<noteq> 0
        then update_metadata fh s1 else s1)"
  have l5: "lookup_fault pfn s5 = Some fh" using l by (simp add: s5_def)
  have r5: "replies s5 = replies s1 @ [reply_event msg True]" by (simp add: s5_def)
  have "remote_fault_with_handle e msg pfn fh s1
     = Inr (if fh_action fh = 0 then unicast_ret e else 0, snd (finish_remote_fault_handling pfn s5))"
    using z l5 by (auto simp add: remote_fault_with_handle_def Let_def s5_def)
  moreover have "replies (snd (finish_remote_fault_handling pfn s5)) = replies s1 @ [reply_event msg True]"
    using r5 by (simp add: finish_remote_replies)
  moreover note finish_remote_local [OF l5 nr]
  ultimately show ?thesis by blast
qed

text \<open>
  Claim C2. An INVALIDATE arrives for a page on which a local write fault is in
  progress (a handle that is not REMOTE and has NEEDWRITE). The handler NACKs it exactly
  when the sender's acked-fault count is strictly higher than the local count, or the
  counts are equal and the local node id (\<open>to_nid\<close>, which the transport sets to the
  receiver) is lower than the sender's; the local handle is then left as it was.
  Otherwise the handler ACKs and the local handle is marked RETRY. With equal counts
  the node with the lower id therefore wins.
\<close>

theorem concurrent_write_priority:
  assumes inv: "msg_type (header msg) = SWMC_KMSG_TYPE_INVALIDATE"
    and ord: "page_order (payload msg) = 0 \<or> page_order (payload msg) = PMD_ORDER"
    and h: "lookup_fault (drop_bit PAGE_SHIFT (cxl_hdm_base s + cxl_hdm_offset (payload msg))) s = Some fh"
           "\<not> is_REMOTE fh" "is_NEEDWRITE fh"
    and tab: "fh_action fh = fh_action_table ! unat (fh_flags fh AND 0x1F)"
  shows "\<exists>ret s'. swmc_kmsg_handle_fetch_or_invalidate e msg s = Inr (ret, s') \<and>
      (if local_acked_fault_count s < acked_fault_count (payload msg)
          \<or> (acked_fault_count (payload msg) = local_acked_fault_count s
              \<and> to_nid (header msg) < from_nid (header msg))
       then replies s' = replies s @ [Unicast SWMC_KMSG_TYPE_INVALIDATE_NACK (ws_id (header msg))
                                        (from_nid (header msg)) (payload msg)]
            \<and> lookup_fault (drop_bit PAGE_SHIFT (cxl_hdm_base s + cxl_hdm_offset (payload msg))) s'
                = Some fh
       else replies s' = replies s @ [Unicast SWMC_KMSG_TYPE_INVALIDATE_ACK (ws_id (header msg))
                                        (from_nid (header msg)) (payload msg)]
            \<and> (\<exists>fh'. lookup_fault (drop_bit PAGE_SHIFT (cxl_hdm_base s + cxl_hdm_offset (payload msg))) s'
                        = Some fh' \<and> is_RETRY fh'))"
proof -
  let ?pfn = "drop_bit PAGE_SHIFT (cxl_hdm_base s + cxl_hdm_offset (payload msg))"
  let ?nack = "local_acked_fault_count s < acked_fault_count (payload msg)
          \<or> (acked_fault_count (payload msg) = local_acked_fault_count s
              \<and> to_nid (header msg) < from_nid (header msg))"
  let ?start = "start_remote_fault_handling e ?pfn True (acked_fault_count (payload msg))
                  (from_nid (header msg)) (to_nid (header msg)) s"
  have ty: "msg_type (header msg) = SWMC_KMSG_TYPE_FETCH
             \<or> msg_type (header msg) = SWMC_KMSG_TYPE_INVALIDATE" using inv by simp
  have unf: "swmc_kmsg_handle_fetch_or_invalidate e msg s
     = (case ?start of
          (None, s1) \<Rightarrow> Inr (unicast_ret e, emit (reply_event msg False) s1)
        | (Some fh, s1) \<Rightarrow> remote_fault_with_handle e msg ?pfn fh s1)"
    using handler_unfold [OF ty ord, of e s] inv by simp
  have hlp: "has_lower_priority s fh True (acked_fault_count (payload msg))
               (from_nid (header msg)) (to_nid (header msg)) = ?nack"
    using h(3) by (auto simp: has_lower_priority_def Let_def)
  have ev: "reply_event msg False = Unicast SWMC_KMSG_TYPE_INVALIDATE_NACK (ws_id (header msg))
                                        (from_nid (header msg)) (payload msg)"
           "reply_event msg True = Unicast SWMC_KMSG_TYPE_INVALIDATE_ACK (ws_id (header msg))
                                        (from_nid (header msg)) (payload msg)"
    using inv by (simp_all add: reply_event_def)
  note found = start_remote_found [OF h(1), of e True "acked_fault_count (payload msg)"
        "from_nid (header msg)" "to_nid (header msg)"]
  show ?thesis
  proof (cases ?nack)
    case True
    then have "?start = (None, s)" using found hlp h(2) by simp
    then have "swmc_kmsg_handle_fetch_or_invalidate e msg s
        = Inr (unicast_ret e, emit (reply_event msg False) s)" by (simp add: unf)
    moreover have "replies (emit (reply_event msg False) s) = replies s @ [reply_event msg False]"
      "lookup_fault ?pfn (emit (reply_event msg False) s) = Some fh"
      using h(1) by simp_all
    ultimately show ?thesis using True ev(1) by auto
  next
    case False
    let ?fh = "set_flag FH_STATE_RETRY fh"
    let ?s1 = "modify_fault ?pfn (set_flag FH_STATE_RETRY) s"
    have st: "?start = (Some ?fh, ?s1)" using found hlp h(2) False by simp
    have l1: "lookup_fault ?pfn ?s1 = Some ?fh" using h(1) by (simp add: lookup_modify_fault)
    have nr: "\<not> is_REMOTE ?fh" using h(2) by simp
    from local_handle_safe [OF h(2) tab] have
      z: "fh_action ?fh AND FH_ACTION_WRITEBACK = 0" "fh_action ?fh AND FH_ACTION_INVALIDATE = 0"
      by simp_all
    from remote_fault_with_local_handle [OF l1 nr z, of e msg] obtain ret s' fh' where
      r: "remote_fault_with_handle e msg ?pfn ?fh ?s1 = Inr (ret, s')"
         "replies s' = replies ?s1 @ [reply_event msg True]"
         "lookup_fault ?pfn s' = Some fh'" "fh_flags fh' = fh_flags ?fh"
      by blast
    have "is_RETRY fh'" using r(4) by (simp add: is_flag_def set_flag_def fh_state_defs bit.conj_disj_distrib2)
    moreover have "swmc_kmsg_handle_fetch_or_invalidate e msg s = Inr (ret, s')"
      using st r(1) by (simp add: unf)
    ultimately show ?thesis using False r(2,3) ev(2) by auto
  qed
qed

lemma sample_handle_action:
  "fh_action writer_handle = fh_action_table ! unat (fh_flags writer_handle AND 0x1F)"
  by (simp add: writer_handle_def fh_action_table_def fh_state_defs fh_action_defs)

lemma sample_writer_lookup:
  "lookup_fault 0x1e80010 writer_state = Some writer_handle"
  by (simp add: lookup_fault_def writer_state_def writer_handle_def)

lemma sample_writer_fields:
  "cxl_hdm_base writer_state = 0x1e80000000" "local_acked_fault_count writer_state = 5"
  "trace writer_state = []"
  by (simp_all add: writer_state_def boot_state_def)

lemma sample_invalidate_fields:
  "msg_type (header (invalidate_msg a b)) = SWMC_KMSG_TYPE_INVALIDATE"
  "from_nid (header (invalidate_msg a b)) = a" "to_nid (header (invalidate_msg a b)) = b"
  "ws_id (header (invalidate_msg a b)) = 9"
  "payload (invalidate_msg a b) = \<lparr>cxl_hdm_offset = 0x10000, page_order = 0, acked_fault_count = 5\<rparr>"
  by (simp_all add: invalidate_msg_def)

lemma sample_offset: "drop_bit PAGE_SHIFT (0x1e80010000 :: u64) = 0x1e80010"
  by (simp add: PAGE_SHIFT_def drop_bit_eq_div)

theorem concurrent_write_priority_witness:
  "lookup_fault 0x1e80010 writer_state = Some writer_handle
   \<and> \<not> is_REMOTE writer_handle \<and> is_NEEDWRITE writer_handle
   \<and> local_acked_fault_count writer_state = acked_fault_count (payload (invalidate_msg 2 1))
   \<and> (\<exists>ret s'. swmc_kmsg_handle_fetch_or_invalidate calm_env (invalidate_msg 2 1) writer_state
                    = Inr (ret, s')
          \<and> replies s' = [Unicast SWMC_KMSG_TYPE_INVALIDATE_NACK 9 2
                            \<lparr>cxl_hdm_offset = 0x10000, page_order = 0, acked_fault_count = 5\<rparr>]
          \<and> lookup_fault 0x1e80010 s' = Some writer_handle)
   \<and> (\<exists>ret s' fh'. swmc_kmsg_handle_fetch_or_invalidate calm_env (invalidate_msg 1 2) writer_state
                    = Inr (ret, s')
          \<and> replies s' = [Unicast SWMC_KMSG_TYPE_INVALIDATE_ACK 9 1
                            \<lparr>cxl_hdm_offset = 0x10000, page_order = 0, acked_fault_count = 5\<rparr>]
          \<and> lookup_fault 0x1e80010 s' = Some fh' \<and> is_RETRY fh')"
proof -
  have f: "\<not> is_REMOTE writer_handle" "is_NEEDWRITE writer_handle"
    by (simp_all add: writer_handle_def is_flag_def fh_state_defs)
  have l: "\<And>a b. lookup_fault (drop_bit PAGE_SHIFT (cxl_hdm_base writer_state
              + cxl_hdm_offset (payload (invalidate_msg a b)))) writer_state = Some writer_handle"
    by (simp add: sample_writer_fields sample_invalidate_fields sample_offset sample_writer_lookup)
  have o: "\<And>a b. page_order (payload (invalidate_msg a b)) = 0
              \<or> page_order (payload (invalidate_msg a b)) = PMD_ORDER"
    by (simp add: sample_invalidate_fields)
  have r: "replies writer_state = []" by (simp add: replies_def sample_writer_fields)
  from concurrent_write_priority [OF sample_invalidate_fields(1) [of 2 1] o [of 2 1] l [of 2 1]
         f sample_handle_action, of calm_env]
       concurrent_write_priority [OF sample_invalidate_fields(1) [of 1 2] o [of 1 2] l [of 1 2]
         f sample_handle_action, of calm_env]
  show ?thesis
    using f r
    by (simp add: sample_writer_fields sample_invalidate_fields sample_offset sample_writer_lookup)
qed

section \<open>The claims on concrete states\<close>





text \<open>
  A read fault that waits behind a remote INVALIDATE: the remote side completes the
  waiter and leaves it the handle, which still has NEEDWRITE.
\<close>

theorem woken_waiter_dereferences_null_witness:
  "lookup_fault 0x1e80010 busy_state \<noteq> None
   \<and> page_coherence_fault waiter_env ''data.bin'' False 0x1e80010 busy_state
     = Inl NullPointerDereference"
proof -
  have p: "pfn_t_to_pfn 0x1e80010 = 0x1e80010"
    by (simp add: pfn_t_to_pfn_def PFN_FLAGS_MASK_def)
  define fh where "fh = \<lparr>original_pfn_val = 0x1e80010, original_page = shared_page,
          fh_flags = FH_STATE_REMOTE OR FH_STATE_NEEDWRITE, fh_action = FH_ACTION_RESPOND,
          complete = False\<rparr>"
  define s1 where "s1 = modify_fault 0x1e80010 (\<lambda>fh. fh\<lparr>complete := False\<rparr>)
       (emit (Complete 0x1e80010)
          (modify_fault 0x1e80010 (\<lambda>fh. fh\<lparr>complete := True\<rparr>) (count_fault False busy_state)))"
  have run: "page_coherence_enabled busy_state \<noteq> 0"
    "\<not> pfn_t_to_pfn 0x1e80010 < drop_bit PAGE_SHIFT (cxl_hdm_base busy_state)"
    "\<not> strstr ''data.bin'' ''.log''" "\<not> strstr ''data.bin'' ''.superblock''"
    by (simp_all add: p busy_state_def boot_state_def PAGE_SHIFT_def drop_bit_eq_div)
  have busy: "lookup_fault (pfn_t_to_pfn 0x1e80010) busy_state = Some fh"
    by (simp add: p lookup_fault_def busy_state_def fh_def)
  have l0: "lookup_fault 0x1e80010 (count_fault False busy_state) = Some fh"
    using busy by (simp add: p)
  have woken: "wakeup waiter_env (modify_fault (pfn_t_to_pfn 0x1e80010) (\<lambda>fh. fh\<lparr>complete := True\<rparr>)
                            (count_fault False busy_state)) = Some s1"
    using l0 by (simp add: p waiter_env_def finish_remote_fault_handling_def lookup_modify_fault s1_def)
  have nw: "lookup_fault (pfn_t_to_pfn 0x1e80010) s1 = Some (fh\<lparr>complete := False\<rparr>)"
    using l0 by (simp add: p s1_def lookup_modify_fault)
  have w: "is_NEEDWRITE (fh\<lparr>complete := False\<rparr>)"
    by (simp add: fh_def is_flag_def fh_state_defs)
  from woken_waiter_dereferences_null [OF run busy woken nw w] busy
  show ?thesis by (simp add: p)
qed

text \<open>
  The replicated page with MODIFIED and SHARED set: a local write fault and a received
  INVALIDATE.
\<close>

theorem invalid_cell_dispatches_no_work_witness:
  "get_replica_opt (pages rwms_state shared_page) = local_page
   \<and> PG_modified (pages rwms_state shared_page) \<and> PG_shared (pages rwms_state shared_page)
   \<and> fh_action (set_fh_action (writer_handle\<lparr>fh_flags := 0xF\<rparr>)) = FH_ACTION_INVALID
   \<and> page_coherence_fault calm_env ''data.bin'' True 0x1e80010 rwms_state
        = Inr (- EINVAL, 0x1e80010,
               upd_page shared_page (\<lambda>d. d\<lparr>PG_coherence := True\<rparr>) (count_fault True rwms_state))
   \<and> swmc_kmsg_handle_fetch_or_invalidate calm_env (invalidate_msg 1 0) rwms_state
        = Inr (0, emit (Unicast SWMC_KMSG_TYPE_INVALIDATE_ACK 9 1
                          \<lparr>cxl_hdm_offset = 0x10000, page_order = 0, acked_fault_count = 5\<rparr>)
                    rwms_state)"
proof -
  have p: "pfn_t_to_pfn 0x1e80010 = 0x1e80010"
    by (simp add: pfn_t_to_pfn_def PFN_FLAGS_MASK_def)
  have sp: "pfn_to_page 0x1e80010 = shared_page" by (simp add: shared_page_def)
  have pg: "pages rwms_state shared_page
      = zero_page\<lparr>page_private := local_page, PG_modified := True, PG_shared := True\<rparr>"
    by (simp add: rwms_state_def boot_state_def)
  have g: "get_replica_opt (pages rwms_state shared_page) = local_page"
    by (simp add: pg get_replica_opt_def sample_pages(1) SWMC_TAG_MASK_def SWMC_TAG_PTR_def
        swmc_decode_replica_ptr_def Let_def)
  have nz: "get_replica_opt (pages rwms_state (pfn_to_page 0x1e80010)) \<noteq> 0"
    by (simp add: sp g sample_pages(1))
  have ms: "PG_modified (pages rwms_state (pfn_to_page 0x1e80010))"
           "PG_shared (pages rwms_state (pfn_to_page 0x1e80010))"
    by (simp_all add: sp pg)
  have fresh: "lookup_fault 0x1e80010 rwms_state = None" "kmem_cache_alloc_ok calm_env"
    by (simp_all add: lookup_fault_def rwms_state_def boot_state_def calm_env_def)
  have st: "page_coherence_enabled rwms_state = 1" "cxl_hdm_base rwms_state = 0x1e80000000"
    by (simp_all add: rwms_state_def boot_state_def upd_page_def)
  have ev: "reply_event (invalidate_msg 1 0) True
      = Unicast SWMC_KMSG_TYPE_INVALIDATE_ACK 9 1
          \<lparr>cxl_hdm_offset = 0x10000, page_order = 0, acked_fault_count = 5\<rparr>"
    by (simp add: reply_event_def sample_invalidate_fields)
  have fl: "fh_flags (writer_handle\<lparr>fh_flags := 0xF\<rparr>) AND 0xF = 0xF" by simp
  from invalid_cell_dispatches_no_work [OF nz ms fresh,
      of "0x1e80010" "''data.bin''" "invalidate_msg 1 0"]
  have "fh_action (set_fh_action (writer_handle\<lparr>fh_flags := 0xF\<rparr>)) = FH_ACTION_INVALID"
    and "page_coherence_fault calm_env ''data.bin'' True 0x1e80010 rwms_state
        = Inr (- EINVAL, 0x1e80010,
               upd_page shared_page (\<lambda>d. d\<lparr>PG_coherence := True\<rparr>) (count_fault True rwms_state))"
    and "swmc_kmsg_handle_fetch_or_invalidate calm_env (invalidate_msg 1 0) rwms_state
        = Inr (0, emit (reply_event (invalidate_msg 1 0) True) rwms_state)"
    using fl
    by (simp_all add: p sp st sample_invalidate_fields sample_offset PAGE_SHIFT_def drop_bit_eq_div
        calm_env_def)
  then show ?thesis using g ms by (simp add: sp ev)
qed

end
